theory Spec2Isabelle
  imports Main "HOL-Library.Finite_Map" "HOL-Library.Countable"
begin

section \<open>JavaScript values\<close>

text \<open>
  The values that travel through a mandate: JSON values and \<open>undefined\<close>. An object is a
  finite map from property names to values, so that equality of two values is deep
  equality (property order is not observable by it). Numbers are restricted to integers;
  NaN, the infinities and fractions do not occur in the model.
\<close>

datatype jsval =
    JUndefined
  | JNull
  | JBool bool
  | JNum int
  | JStr string
  | JArr "jsval list"
  | JObj "(string, jsval) fmap"

text \<open>\<open>!!v\<close>\<close>

fun truthy :: "jsval \<Rightarrow> bool" where
  "truthy JUndefined = False"
| "truthy JNull = False"
| "truthy (JBool b) = b"
| "truthy (JNum n) = (n \<noteq> 0)"
| "truthy (JStr s) = (s \<noteq> [])"
| "truthy (JArr xs) = True"
| "truthy (JObj m) = True"

text \<open>\<open>v ?? d\<close> takes the default when \<open>v\<close> is \<open>null\<close> or \<open>undefined\<close>.\<close>

fun nullish :: "jsval \<Rightarrow> bool" where
  "nullish JUndefined = True"
| "nullish JNull = True"
| "nullish v = False"

text \<open>\<open>typeof v === "object"\<close> (true of \<open>null\<close> and of arrays too).\<close>

fun typeofObject :: "jsval \<Rightarrow> bool" where
  "typeofObject JNull = True"
| "typeofObject (JArr xs) = True"
| "typeofObject (JObj m) = True"
| "typeofObject v = False"

fun typeofNumber :: "jsval \<Rightarrow> bool" where
  "typeofNumber (JNum n) = True"
| "typeofNumber v = False"

fun typeofString :: "jsval \<Rightarrow> bool" where
  "typeofString (JStr s) = True"
| "typeofString v = False"

text \<open>
  \<open>v.k\<close> for a property name \<open>k\<close> that no primitive or array carries (\<open>kind\<close>,
  \<open>payload\<close>, \<open>amountIn\<close>): the stored value of an object, \<open>undefined\<close> otherwise.
  Every caller in the source tests \<open>v\<close> for truthiness first, so the TypeError of a
  read from \<open>null\<close> or \<open>undefined\<close> is never reached.
\<close>

fun getProp :: "jsval \<Rightarrow> string \<Rightarrow> jsval" where
  "getProp (JObj m) k = (case fmlookup m k of None \<Rightarrow> JUndefined | Some v \<Rightarrow> v)"
| "getProp v k = JUndefined"

text \<open>\<open>delete v.k\<close>\<close>

fun deleteProp :: "jsval \<Rightarrow> string \<Rightarrow> jsval" where
  "deleteProp (JObj m) k = JObj (fmdrop k m)"
| "deleteProp v k = v"

text \<open>
  \<open>JSON.parse(JSON.stringify(x))\<close>: a property whose value is \<open>undefined\<close> is left out,
  an array element that is \<open>undefined\<close> becomes \<open>null\<close>. For \<open>undefined\<close> itself
  \<open>JSON.stringify\<close> produces no text, which the result \<open>JUndefined\<close> stands for; the
  source only clones whole mandate documents, which are objects.
\<close>

definition dropUndefined :: "(string, jsval) fmap \<Rightarrow> (string, jsval) fmap" where
  "dropUndefined m = fmfilter (\<lambda>k. fmlookup m k \<noteq> Some JUndefined) m"

definition undefinedToNull :: "jsval \<Rightarrow> jsval" where
  "undefinedToNull v = (if v = JUndefined then JNull else v)"

primrec deepClone :: "jsval \<Rightarrow> jsval" where
  "deepClone JUndefined = JUndefined"
| "deepClone JNull = JNull"
| "deepClone (JBool b) = JBool b"
| "deepClone (JNum n) = JNum n"
| "deepClone (JStr s) = JStr s"
| "deepClone (JArr xs) = JArr (map undefinedToNull (map deepClone xs))"
| "deepClone (JObj m) = JObj (dropUndefined (fmmap deepClone m))"

section \<open>Strings\<close>

text \<open>
  A \<open>string\<close> stands for a JavaScript string whose code units are below 256 (Latin-1).
  \<open>toLowerCase\<close> maps A-Z and the upper-case letters of the Latin-1 supplement (U+00C0 to
  U+00DE, the multiplication sign U+00D7 apart) 32 places up.
\<close>

definition lowerChar :: "char \<Rightarrow> char" where
  "lowerChar c =
     (let n = (of_char c :: nat)
      in if (65 \<le> n \<and> n \<le> 90) \<or> (192 \<le> n \<and> n \<le> 222 \<and> n \<noteq> 215)
         then char_of (n + 32) else c)"

definition toLowerCase :: "string \<Rightarrow> string" where
  "toLowerCase s = map lowerChar s"

text \<open>\<open>s.split(sep)\<close> for a one-character separator; \<open>"".split(":")\<close> is \<open>[""]\<close>.\<close>

fun split :: "char \<Rightarrow> string \<Rightarrow> string list" where
  "split sep [] = [Nil]"
| "split sep (c # cs) =
     (if c = sep then [] # split sep cs
      else (case split sep cs of
              [] \<Rightarrow> [c # []]
            | p # ps \<Rightarrow> (c # p) # ps))"

text \<open>\<open>xs[i]\<close>: reading past the end of an array gives \<open>undefined\<close>, here \<open>None\<close>.\<close>

fun index :: "'a list \<Rightarrow> nat \<Rightarrow> 'a option" where
  "index [] i = None"
| "index (x # xs) 0 = Some x"
| "index (x # xs) (Suc i) = index xs i"

section \<open>Types of the mandate (types/mandate)\<close>

datatype role = Client | Server

record Signature =
  alg :: string
  mandateHash :: string
  signature :: string

record MandateSignatures =
  clientSig :: "Signature option"
  serverSig :: "Signature option"

text \<open>
  \<open>MandateBase & Partial<{signatures}>\<close>, the private field \<open>m\<close> of the class and the
  document that \<open>toJSON\<close> returns. The fields have the types that types/mandate
  declares: strings, but for \<open>core\<close>, which the class itself inspects at run time and
  which is any value.
\<close>

record Mandate =
  mandateId :: string
  version :: string
  client :: string
  server :: string
  createdAt :: string
  deadline :: string
  intent :: string
  core :: jsval
  signatures :: "MandateSignatures option"

text \<open>
  \<open>MandateInit\<close>, with \<open>None\<close> (for \<open>core\<close>: \<open>JUndefined\<close>) wherever the constructor
  provides for a field that is not there.
\<close>

record MandateInit =
  init_mandateId :: "string option"
  init_version :: string
  init_client :: "string option"
  init_server :: "string option"
  init_createdAt :: "string option"
  init_deadline :: "string option"
  init_intent :: "string option"
  init_core :: jsval
  init_signatures :: "MandateSignatures option"

record VerifyResult =
  ok :: bool
  recovered :: string
  recomputedHash :: string
  verifiedAlg :: string

record VerifyAllResult =
  clientResult :: VerifyResult
  serverResult :: VerifyResult

text \<open>The fields of ethers' \<open>TypedDataDomain\<close>; only \<open>chainId\<close> is inspected.\<close>

record TypedDataDomain =
  domainName :: "string option"
  domainVersion :: "string option"
  chainId :: jsval
  verifyingContract :: "string option"
  salt :: "string option"

section \<open>Errors\<close>

datatype error =
    ClientServerRequired
  | DeadlineRequired
  | CanonicalizeEmpty
  | PrimitiveAlreadyRegistered string
  | UnknownPrimitive string
  | ValidationError string
  | CoreMissing
  | CoreKindMismatch string
  | Eip712RequiresDomain
  | UnsupportedAlg string
  | NoSignatures
  | SigMissing role
  | MandateHashMismatch role
  | SignatureInvalid role string string
  | TypeError
  | SignerRejected
  | RecoveryFailed
  | Caip10Invalid
  | ClientMismatch string string
  | ServerMismatch string string
  | DeadlinePassed
  | UnexpectedCoreShape
  | BadAmountIn

section \<open>What the code imports\<close>

text \<open>
  The packages \<open>canonicalize\<close> and \<open>ethers\<close> are parameters of the model. Byte
  arrays are only handed from one library function to the next, so their type is a type
  variable. \<open>canonicalize\<close> returns a string or \<open>undefined\<close> (\<open>None\<close>); the two recovery
  functions throw on a malformed signature (\<open>None\<close>).
\<close>

record 'b libs =
  canonicalize :: "jsval \<Rightarrow> string option"
  toUtf8Bytes :: "string \<Rightarrow> 'b"
  keccak256 :: "'b \<Rightarrow> string"
  verifyMessage :: "'b \<Rightarrow> string \<Rightarrow> string option"
  verifyTypedData :: "TypedDataDomain \<Rightarrow> string \<Rightarrow> string \<Rightarrow> string option"

text \<open>A wallet: its address and its two signing methods, whose promises may reject.\<close>

record 'b HDNodeWallet =
  address :: string
  signMessage :: "'b \<Rightarrow> string option"
  signTypedData :: "TypedDataDomain \<Rightarrow> string \<Rightarrow> string option"

text \<open>
  What one call reads from its surroundings: the identifier \<open>ulid()\<close> returns, the clock as
  \<open>new Date().toISOString()\<close> and as \<open>new Date().getTime()\<close>, and the parser behind
  \<open>new Date(s).getTime()\<close>, \<open>None\<close> for NaN.
\<close>

record env =
  ulid :: string
  dateNowISO :: string
  dateNowMs :: int
  dateParse :: "string \<Rightarrow> int option"

section \<open>The primitive registry\<close>

text \<open>
  A validator's \<open>parse\<close> returns the typed value or throws an error of its own, here
  the error's message.
\<close>

record PrimitiveValidator =
  parse :: "jsval \<Rightarrow> string + jsval"

definition runParse :: "PrimitiveValidator \<Rightarrow> jsval \<Rightarrow> error + jsval" where
  "runParse v payload =
     (case parse v payload of Inl msg \<Rightarrow> Inl (ValidationError msg) | Inr typed \<Rightarrow> Inr typed)"

record PrimitiveDef =
  kind :: string
  validator :: PrimitiveValidator
  describe :: "string option"

type_synonym registry = "string \<rightharpoonup> PrimitiveDef"

definition registerPrimitive :: "PrimitiveDef \<Rightarrow> registry \<Rightarrow> (error + unit) \<times> registry" where
  "registerPrimitive d reg =
     (if reg (kind d) \<noteq> None then (Inl (PrimitiveAlreadyRegistered (kind d)), reg)
      else (Inr (), reg(kind d \<mapsto> d)))"

definition getPrimitive :: "registry \<Rightarrow> string \<Rightarrow> error + PrimitiveDef" where
  "getPrimitive reg k =
     (case reg k of None \<Rightarrow> Inl (UnknownPrimitive k) | Some d \<Rightarrow> Inr d)"

definition hasPrimitive :: "registry \<Rightarrow> string \<Rightarrow> bool" where
  "hasPrimitive reg k = (reg k \<noteq> None)"

section \<open>Canonical form and hash\<close>

text \<open>The mandate record as the JavaScript object it is.\<close>

definition sigObject :: "Signature \<Rightarrow> jsval" where
  "sigObject s =
     JObj (fmap_of_list
       [(''alg'', JStr (alg s)),
        (''mandateHash'', JStr (mandateHash s)),
        (''signature'', JStr (signature s))])"

definition sigsObject :: "MandateSignatures \<Rightarrow> jsval" where
  "sigsObject ss =
     JObj (fmap_of_list
       ((case clientSig ss of None \<Rightarrow> [] | Some s \<Rightarrow> [(''clientSig'', sigObject s)]) @
        (case serverSig ss of None \<Rightarrow> [] | Some s \<Rightarrow> [(''serverSig'', sigObject s)])))"

definition toObject :: "Mandate \<Rightarrow> jsval" where
  "toObject m =
     JObj (fmap_of_list
       ([(''mandateId'', JStr (mandateId m)),
         (''version'', JStr (version m)),
         (''client'', JStr (client m)),
         (''server'', JStr (server m)),
         (''createdAt'', JStr (createdAt m)),
         (''deadline'', JStr (deadline m)),
         (''intent'', JStr (intent m)),
         (''core'', core m)] @
        (case signatures m of None \<Rightarrow> [] | Some ss \<Rightarrow> [(''signatures'', sigsObject ss)])))"

definition canonicalizeForHash :: "'b libs \<Rightarrow> jsval \<Rightarrow> error + string" where
  "canonicalizeForHash L doc =
     (let m = deleteProp (deepClone doc) ''signatures''
      in case canonicalize L m of
           None \<Rightarrow> Inl CanonicalizeEmpty
         | Some jcs \<Rightarrow> if jcs = [] then Inl CanonicalizeEmpty else Inr jcs)"

definition computeMandateHash :: "'b libs \<Rightarrow> jsval \<Rightarrow> error + string" where
  "computeMandateHash L doc =
     (case canonicalizeForHash L doc of
        Inl e \<Rightarrow> Inl e
      | Inr jcs \<Rightarrow> Inr (keccak256 L (toUtf8Bytes L jcs)))"

section \<open>The Mandate class\<close>

text \<open>
  The constructor. \<open>!init.client\<close> holds of a field that is missing and of the empty
  string; \<open>??\<close> replaces a field that is missing. The source stores \<open>init.core\<close> and
  \<open>init.signatures\<close> by reference; the model holds their values.
\<close>

definition Mandate_constructor :: "env \<Rightarrow> MandateInit \<Rightarrow> error + Mandate" where
  "Mandate_constructor E init =
     (case init_client init of
        None \<Rightarrow> Inl ClientServerRequired
      | Some c \<Rightarrow>
     (case init_server init of
        None \<Rightarrow> Inl ClientServerRequired
      | Some s \<Rightarrow>
      if c = [] \<or> s = [] then Inl ClientServerRequired
      else
     (case init_deadline init of
        None \<Rightarrow> Inl DeadlineRequired
      | Some d \<Rightarrow>
      if d = [] then Inl DeadlineRequired
      else Inr \<lparr>
        mandateId = (case init_mandateId init of None \<Rightarrow> ulid E | Some i \<Rightarrow> i),
        version = init_version init,
        client = c,
        server = s,
        createdAt = (case init_createdAt init of None \<Rightarrow> dateNowISO E | Some t \<Rightarrow> t),
        deadline = d,
        intent = (case init_intent init of None \<Rightarrow> [] | Some t \<Rightarrow> t),
        core = (if nullish (init_core init) then JObj fmempty else init_core init),
        signatures = init_signatures init \<rparr>)))"

text \<open>
  \<open>toJSON\<close> is \<open>deepClone(this.m)\<close>. Every field but \<open>core\<close> holds strings only, which
  cloning leaves as they are; \<open>toObject_toJSON\<close> below relates this to \<open>deepClone\<close> on
  the object.
\<close>

definition toJSON :: "Mandate \<Rightarrow> Mandate" where
  "toJSON m = m\<lparr>core := deepClone (core m)\<rparr>"

definition toCanonicalString :: "'b libs \<Rightarrow> Mandate \<Rightarrow> error + string" where
  "toCanonicalString L m = canonicalizeForHash L (toObject m)"

definition Mandate_mandateHash :: "'b libs \<Rightarrow> Mandate \<Rightarrow> error + string" where
  "Mandate_mandateHash L m = computeMandateHash L (toObject m)"

definition setCore :: "registry \<Rightarrow> string \<Rightarrow> jsval \<Rightarrow> Mandate \<Rightarrow> (error + unit) \<times> Mandate" where
  "setCore reg k payload m =
     (case getPrimitive reg k of
        Inl e \<Rightarrow> (Inl e, m)
      | Inr d \<Rightarrow>
          (case runParse (validator d) payload of
             Inl e \<Rightarrow> (Inl e, m)
           | Inr typed \<Rightarrow>
               (Inr (), m\<lparr>core := JObj (fmap_of_list [(''kind'', JStr k), (''payload'', typed)])\<rparr>)))"

definition is_kind :: "Mandate \<Rightarrow> string \<Rightarrow> bool" where
  "is_kind m k = (truthy (core m) \<and> getProp (core m) ''kind'' = JStr k)"

text \<open>An \<open>expectedKind\<close> that is left out or is the empty string is not compared.\<close>

definition coreAs :: "PrimitiveValidator \<Rightarrow> string option \<Rightarrow> Mandate \<Rightarrow> error + jsval" where
  "coreAs schema expectedKind m =
     (if \<not> truthy (core m) \<or> \<not> typeofObject (core m) then Inl CoreMissing
      else
        (case expectedKind of
           None \<Rightarrow> runParse schema (getProp (core m) ''payload'')
         | Some k \<Rightarrow>
             if k \<noteq> [] \<and> getProp (core m) ''kind'' \<noteq> JStr k then Inl (CoreKindMismatch k)
             else runParse schema (getProp (core m) ''payload'')))"

definition coreAsKind :: "registry \<Rightarrow> string \<Rightarrow> Mandate \<Rightarrow> error + jsval" where
  "coreAsKind reg k m =
     (if \<not> truthy (core m) \<or> getProp (core m) ''kind'' \<noteq> JStr k then Inl (CoreKindMismatch k)
      else
        (case getPrimitive reg k of
           Inl e \<Rightarrow> Inl e
         | Inr d \<Rightarrow> runParse (validator d) (getProp (core m) ''payload'')))"

definition tryCoreAs :: "PrimitiveValidator \<Rightarrow> string option \<Rightarrow> Mandate \<Rightarrow> jsval" where
  "tryCoreAs schema expectedKind m =
     (case coreAs schema expectedKind m of Inl e \<Rightarrow> JNull | Inr v \<Rightarrow> v)"

definition attachSig :: "role \<Rightarrow> Signature \<Rightarrow> Mandate \<Rightarrow> Mandate" where
  "attachSig r sg m =
     (let ss = (case signatures m of
                  None \<Rightarrow> \<lparr>clientSig = None, serverSig = None\<rparr>
                | Some ss \<Rightarrow> ss)
      in m\<lparr>signatures :=
             Some (case r of
                     Client \<Rightarrow> ss\<lparr>clientSig := Some sg\<rparr>
                   | Server \<Rightarrow> ss\<lparr>serverSig := Some sg\<rparr>)\<rparr>)"

text \<open>
  \<open>sign\<close>; the algorithm defaults to \<open>eip191\<close> when it is left out. The result is what the
  call returns or throws, paired with the mandate as the call leaves it. The call is
  asynchronous; the model takes it as one step, nothing else touching the mandate while
  the wallet signs.
\<close>

definition sign ::
  "'b libs \<Rightarrow> role \<Rightarrow> 'b HDNodeWallet \<Rightarrow> string option \<Rightarrow> TypedDataDomain option \<Rightarrow> Mandate
     \<Rightarrow> (error + Signature) \<times> Mandate" where
  "sign L r wallet algOpt dmn m =
     (let a = (case algOpt of None \<Rightarrow> ''eip191'' | Some a \<Rightarrow> a)
      in case toCanonicalString L m of
           Inl e \<Rightarrow> (Inl e, m)
         | Inr jcs \<Rightarrow>
             (let h = keccak256 L (toUtf8Bytes L jcs);
                  signed =
                    (if a = ''eip191'' then
                       (case signMessage wallet (toUtf8Bytes L jcs) of
                          None \<Rightarrow> Inl SignerRejected
                        | Some s \<Rightarrow> Inr s)
                     else if a = ''eip712'' then
                       (case dmn of
                          None \<Rightarrow> Inl Eip712RequiresDomain
                        | Some d \<Rightarrow>
                            if \<not> typeofNumber (chainId d) then Inl Eip712RequiresDomain
                            else (case signTypedData wallet d h of
                                    None \<Rightarrow> Inl SignerRejected
                                  | Some s \<Rightarrow> Inr s))
                     else Inl (UnsupportedAlg a))
              in case signed of
                   Inl e \<Rightarrow> (Inl e, m)
                 | Inr s \<Rightarrow>
                     (let sg = \<lparr>alg = a, mandateHash = h, signature = s\<rparr>
                      in (Inr sg, attachSig r sg m))))"

definition roleSig :: "role \<Rightarrow> MandateSignatures \<Rightarrow> Signature option" where
  "roleSig r ss = (case r of Client \<Rightarrow> clientSig ss | Server \<Rightarrow> serverSig ss)"

definition roleId :: "role \<Rightarrow> Mandate \<Rightarrow> string" where
  "roleId r m = (case r of Client \<Rightarrow> client m | Server \<Rightarrow> server m)"

text \<open>The address recovered from a signature, by the algorithm the signature names.\<close>

definition recover ::
  "'b libs \<Rightarrow> TypedDataDomain option \<Rightarrow> Signature \<Rightarrow> Mandate \<Rightarrow> error + string" where
  "recover L dmn sg m =
     (if alg sg = ''eip191'' then
        (case toCanonicalString L m of
           Inl e \<Rightarrow> Inl e
         | Inr jcs \<Rightarrow>
             (case verifyMessage L (toUtf8Bytes L jcs) (signature sg) of
                None \<Rightarrow> Inl RecoveryFailed
              | Some a \<Rightarrow> Inr a))
      else
        (case dmn of
           None \<Rightarrow> Inl Eip712RequiresDomain
         | Some d \<Rightarrow>
             if \<not> typeofNumber (chainId d) then Inl Eip712RequiresDomain
             else (case verifyTypedData L d (mandateHash sg) (signature sg) of
                     None \<Rightarrow> Inl RecoveryFailed
                   | Some a \<Rightarrow> Inr a)))"

definition verifyRole ::
  "'b libs \<Rightarrow> role \<Rightarrow> TypedDataDomain option \<Rightarrow> Mandate \<Rightarrow> error + VerifyResult" where
  "verifyRole L r dmn m =
     (case signatures m of
        None \<Rightarrow> Inl NoSignatures
      | Some ss \<Rightarrow>
     (case roleSig r ss of
        None \<Rightarrow> Inl (SigMissing r)
      | Some sg \<Rightarrow>
     (case Mandate_mandateHash L m of
        Inl e \<Rightarrow> Inl e
      | Inr recomputed \<Rightarrow>
      if toLowerCase (mandateHash sg) \<noteq> toLowerCase recomputed then Inl (MandateHashMismatch r)
      else
     (case recover L dmn sg m of
        Inl e \<Rightarrow> Inl e
      | Inr rec \<Rightarrow>
     (case index (split CHR '':'' (roleId r m)) 2 of
        None \<Rightarrow> Inl TypeError
      | Some a \<Rightarrow>
      if toLowerCase rec \<noteq> toLowerCase a then Inl (SignatureInvalid r (toLowerCase a) rec)
      else Inr \<lparr>ok = True, recovered = rec, recomputedHash = recomputed,
                verifiedAlg = alg sg\<rparr>)))))"

definition verifyAll ::
  "'b libs \<Rightarrow> TypedDataDomain option \<Rightarrow> TypedDataDomain option \<Rightarrow> Mandate
     \<Rightarrow> error + VerifyAllResult" where
  "verifyAll L dc ds m =
     (case verifyRole L Client dc m of
        Inl e \<Rightarrow> Inl e
      | Inr c \<Rightarrow>
          (case verifyRole L Server ds m of
             Inl e \<Rightarrow> Inl e
           | Inr s \<Rightarrow> Inr \<lparr>clientResult = c, serverResult = s\<rparr>))"

definition fromObject :: "env \<Rightarrow> MandateInit \<Rightarrow> error + Mandate" where
  "fromObject E obj = Mandate_constructor E obj"

text \<open>
  A document that \<open>toJSON\<close> returned, read as the \<open>MandateInit\<close> that \<open>fromObject\<close>
  casts it to: every field is there.
\<close>

definition asInit :: "Mandate \<Rightarrow> MandateInit" where
  "asInit j =
     \<lparr> init_mandateId = Some (mandateId j),
       init_version = version j,
       init_client = Some (client j),
       init_server = Some (server j),
       init_createdAt = Some (createdAt j),
       init_deadline = Some (deadline j),
       init_intent = Some (intent j),
       init_core = core j,
       init_signatures = signatures j \<rparr>"

text \<open>
  The mandates a program can hold: built by the constructor, then changed by \<open>setCore\<close>
  and by \<open>attachSig\<close>, the one write that \<open>sign\<close> performs.
\<close>

inductive reachable :: "Mandate \<Rightarrow> bool" where
  constructed: "Mandate_constructor E init = Inr m \<Longrightarrow> reachable m"
| core_set: "reachable m \<Longrightarrow> reachable (snd (setCore reg k payload m))"
| sig_attached: "reachable m \<Longrightarrow> reachable (attachSig r sg m)"

section \<open>The third-party verifier (agent/verifier/thirdParty.ts)\<close>

text \<open>A \<open>Date\<close> is its time value in milliseconds, \<open>None\<close> for an invalid date (NaN).\<close>

type_synonym Date = "int option"

record VerifyOptions =
  requireClient :: "string option"
  requireServer :: "string option"
  now :: "Date option"
  eip712ClientDomain :: "TypedDataDomain option"
  eip712ServerDomain :: "TypedDataDomain option"
  primitive :: "string option"

record ThirdPartyResult =
  resultOk :: bool
  partiesClient :: string
  partiesServer :: string
  resultSignatures :: VerifyAllResult
  resultMandateHash :: string
  resultCore :: jsval

definition isSwapCore :: "jsval \<Rightarrow> bool" where
  "isSwapCore x =
     (truthy x \<and> getProp x ''kind'' = JStr ''swap@1'' \<and> truthy (getProp x ''payload'')
      \<and> typeofString (getProp (getProp x ''payload'') ''amountIn''))"

text \<open>
  \<open>opts.requireX && addr !== opts.requireX.toLowerCase()\<close>: a required address that is
  left out, or is the empty string, is not compared.
\<close>

definition requireMismatch :: "string option \<Rightarrow> string \<Rightarrow> bool" where
  "requireMismatch req addr =
     (case req of None \<Rightarrow> False | Some r \<Rightarrow> r \<noteq> [] \<and> addr \<noteq> toLowerCase r)"

definition requiredOf :: "string option \<Rightarrow> string" where
  "requiredOf req = (case req of None \<Rightarrow> [] | Some r \<Rightarrow> r)"

text \<open>\<open>now > new Date(j.deadline).getTime()\<close>; a comparison with NaN is false.\<close>

definition deadlinePassed :: "env \<Rightarrow> VerifyOptions \<Rightarrow> Mandate \<Rightarrow> bool" where
  "deadlinePassed E opts j =
     (case (case now opts of None \<Rightarrow> Some (dateNowMs E) | Some d \<Rightarrow> d) of
        None \<Rightarrow> False
      | Some t \<Rightarrow> (case dateParse E (deadline j) of None \<Rightarrow> False | Some dl \<Rightarrow> t > dl))"

definition primitiveCheck :: "VerifyOptions \<Rightarrow> Mandate \<Rightarrow> error + unit" where
  "primitiveCheck opts j =
     (if primitive opts = Some ''swap@1'' then
        (if \<not> isSwapCore (core j) then Inl UnexpectedCoreShape
         else if getProp (getProp (core j) ''payload'') ''amountIn'' = JStr ''0''
              then Inl BadAmountIn
         else Inr ())
      else Inr ())"

text \<open>
  \<open>addrFromCaip10\<close> is exported by the core package, whose file under src/ does not hold
  it; it is the parameter \<open>A\<close>, \<open>None\<close> where it throws.
\<close>

definition verifyMandateAsThirdParty ::
  "(string \<Rightarrow> string option) \<Rightarrow> 'b libs \<Rightarrow> env \<Rightarrow> MandateInit \<Rightarrow> VerifyOptions
     \<Rightarrow> error + ThirdPartyResult" where
  "verifyMandateAsThirdParty A L E mandateJson opts =
     (case fromObject E mandateJson of
        Inl e \<Rightarrow> Inl e
      | Inr m \<Rightarrow>
     (case verifyAll L (eip712ClientDomain opts) (eip712ServerDomain opts) m of
        Inl e \<Rightarrow> Inl e
      | Inr sigs \<Rightarrow>
     (let j = toJSON m
      in case A (client j) of
        None \<Rightarrow> Inl Caip10Invalid
      | Some ca \<Rightarrow>
     (case A (server j) of
        None \<Rightarrow> Inl Caip10Invalid
      | Some sa \<Rightarrow>
     (let clientAddr = toLowerCase ca; serverAddr = toLowerCase sa
      in if requireMismatch (requireClient opts) clientAddr
           then Inl (ClientMismatch (requiredOf (requireClient opts)) clientAddr)
         else if requireMismatch (requireServer opts) serverAddr
           then Inl (ServerMismatch (requiredOf (requireServer opts)) serverAddr)
         else if deadlinePassed E opts j then Inl DeadlinePassed
         else
           (case primitiveCheck opts j of
              Inl e \<Rightarrow> Inl e
            | Inr u \<Rightarrow>
                (case Mandate_mandateHash L m of
                   Inl e \<Rightarrow> Inl e
                 | Inr h \<Rightarrow>
                     Inr \<lparr>resultOk = True, partiesClient = clientAddr,
                          partiesServer = serverAddr, resultSignatures = sigs,
                          resultMandateHash = h, resultCore = core j\<rparr>)))))))"

section \<open>Example values\<close>

text \<open>The values at which the theorems below are instantiated.\<close>

instance jsval :: countable
  by countable_datatype

definition env0 :: env where
  "env0 = \<lparr>ulid = ''01J0000000000000000000000'', dateNowISO = ''2025-01-01T00:00:00.000Z'',
           dateNowMs = 1735689600000,
           dateParse = (\<lambda>s. if s = ''2025-01-01T00:15:00.000Z'' then Some 1735690500000
                             else None)\<rparr>"

definition init0 :: MandateInit where
  "init0 = \<lparr>init_mandateId = None, init_version = ''0.1.0'',
            init_client = Some ''eip155:1:0xAaA'', init_server = Some ''eip155:1:0xBbB'',
            init_createdAt = None, init_deadline = Some ''2025-01-01T00:15:00.000Z'',
            init_intent = None, init_core = JUndefined, init_signatures = None\<rparr>"

definition mandate0 :: Mandate where
  "mandate0 = \<lparr>mandateId = ''01J0000000000000000000000'', version = ''0.1.0'',
               client = ''eip155:1:0xAaA'', server = ''eip155:1:0xBbB'',
               createdAt = ''2025-01-01T00:00:00.000Z'', deadline = ''2025-01-01T00:15:00.000Z'',
               intent = [], core = JObj fmempty, signatures = None\<rparr>"

definition swapValidator :: PrimitiveValidator where
  "swapValidator = \<lparr>parse = (\<lambda>p. if typeofString (getProp p ''amountIn'') then Inr p
                                 else Inl ''amountIn: expected string'')\<rparr>"

definition anyValidator :: PrimitiveValidator where
  "anyValidator = \<lparr>parse = (\<lambda>p. Inr p)\<rparr>"

definition swapDef :: PrimitiveDef where
  "swapDef = \<lparr>kind = ''swap@1'', validator = swapValidator, describe = None\<rparr>"

definition swapDef2 :: PrimitiveDef where
  "swapDef2 = \<lparr>kind = ''swap@1'', validator = anyValidator, describe = None\<rparr>"

definition swapPayload :: jsval where
  "swapPayload = JObj (fmap_of_list [(''amountIn'', JStr ''100000000''), (''minOut'', JStr ''165000'')])"

text \<open>
  A toy instance of the libraries, byte arrays being strings: the canonical form shows the
  intent and whether a \<open>signatures\<close> property reached the canonicaliser, the hash
  prefixes \<open>0x\<close>, and a signature by the key of \<open>0xAAA\<close> is the signed text after
  \<open>A:\<close>.
\<close>

definition libs0 :: "string libs" where
  "libs0 = \<lparr>
     canonicalize = (\<lambda>d. case getProp d ''intent'' of
                           JStr s \<Rightarrow> Some (''{intent:'' @ s @
                                         (if getProp d ''signatures'' = JUndefined then ''}''
                                          else '',signatures}''))
                         | _ \<Rightarrow> None),
     toUtf8Bytes = (\<lambda>s. s),
     keccak256 = (\<lambda>b. ''0x'' @ b),
     verifyMessage = (\<lambda>msg sg. if sg = ''A:'' @ msg then Some ''0xAAA''
                               else if sg = ''B:'' @ msg then Some ''0xBBB'' else None),
     verifyTypedData = (\<lambda>d h sg. if sg = ''A:'' @ h then Some ''0xAAA''
                                 else if sg = ''B:'' @ h then Some ''0xBBB'' else None) \<rparr>"

definition walletA :: "string HDNodeWallet" where
  "walletA = \<lparr>address = ''0xAAA'', signMessage = (\<lambda>msg. Some (''A:'' @ msg)),
              signTypedData = (\<lambda>d h. Some (''A:'' @ h))\<rparr>"

definition walletB :: "string HDNodeWallet" where
  "walletB = \<lparr>address = ''0xBBB'', signMessage = (\<lambda>msg. Some (''B:'' @ msg)),
              signTypedData = (\<lambda>d h. Some (''B:'' @ h))\<rparr>"

text \<open>
  A second instance, whose canonical form and hash are injective: both count, in unary,
  the code of what they are given.
\<close>

definition libsInj :: "string libs" where
  "libsInj = \<lparr>
     canonicalize = (\<lambda>d. Some (CHR ''j'' # replicate (to_nat d) CHR ''x'')),
     toUtf8Bytes = (\<lambda>s. s),
     keccak256 = (\<lambda>b. ''0x'' @ replicate (to_nat b) CHR ''0''),
     verifyMessage = (\<lambda>msg sg. None),
     verifyTypedData = (\<lambda>d h sg. None) \<rparr>"

definition domain0 :: TypedDataDomain where
  "domain0 = \<lparr>domainName = Some ''Mandate'', domainVersion = Some ''1'', chainId = JNum 1,
              verifyingContract = None, salt = None\<rparr>"

definition sig0 :: Signature where
  "sig0 = \<lparr>alg = ''eip191'', mandateHash = ''0xabc'', signature = ''0xdef''\<rparr>"

definition sigA191 :: Signature where
  "sigA191 = \<lparr>alg = ''eip191'', mandateHash = ''0x{intent:}'', signature = ''A:{intent:}''\<rparr>"

definition sigA712 :: Signature where
  "sigA712 = \<lparr>alg = ''eip712'', mandateHash = ''0x{intent:}'', signature = ''A:0x{intent:}''\<rparr>"

definition sigB191 :: Signature where
  "sigB191 = \<lparr>alg = ''eip191'', mandateHash = ''0x{intent:}'', signature = ''B:{intent:}''\<rparr>"

definition sigA191Upper :: Signature where
  "sigA191Upper = \<lparr>alg = ''eip191'', mandateHash = ''0X{INTENT:}'', signature = ''A:{intent:}''\<rparr>"

definition signedInit0 :: MandateInit where
  "signedInit0 = init0\<lparr>init_signatures := Some \<lparr>clientSig = Some sigA191, serverSig = Some sigB191\<rparr>\<rparr>"

definition signedMandate0 :: Mandate where
  "signedMandate0 = mandate0\<lparr>signatures := Some \<lparr>clientSig = Some sigA191, serverSig = Some sigB191\<rparr>\<rparr>"

definition opts0 :: VerifyOptions where
  "opts0 = \<lparr>requireClient = None, requireServer = None, now = None, eip712ClientDomain = None,
            eip712ServerDomain = None, primitive = None\<rparr>"

definition addr0 :: "string \<Rightarrow> string option" where
  "addr0 s = index (split CHR '':'' s) 2"

definition verified0 :: VerifyAllResult where
  "verified0 =
     \<lparr>clientResult = \<lparr>ok = True, recovered = ''0xAAA'', recomputedHash = ''0x{intent:}'',
                      verifiedAlg = ''eip191''\<rparr>,
      serverResult = \<lparr>ok = True, recovered = ''0xBBB'', recomputedHash = ''0x{intent:}'',
                      verifiedAlg = ''eip191''\<rparr>\<rparr>"

section \<open>Cloning\<close>

lemma undefinedToNull_clone:
  "deepClone (deepClone x) = deepClone x
     \<Longrightarrow> undefinedToNull (deepClone (undefinedToNull (deepClone x))) = undefinedToNull (deepClone x)"
  by (simp add: undefinedToNull_def)

lemma fmlookup_dropUndefined:
  "fmlookup (dropUndefined m) k = (if fmlookup m k = Some JUndefined then None else fmlookup m k)"
  by (simp add: dropUndefined_def)

lemma deepClone_idem: "deepClone (deepClone x) = deepClone x"
proof (induction x)
  case (JArr xs)
  then show ?case by (simp add: undefinedToNull_clone)
next
  case (JObj m)
  have "dropUndefined (fmmap deepClone (dropUndefined (fmmap deepClone m)))
          = dropUndefined (fmmap deepClone m)"
  proof (rule fmap_ext)
    fix k
    show "fmlookup (dropUndefined (fmmap deepClone (dropUndefined (fmmap deepClone m)))) k
            = fmlookup (dropUndefined (fmmap deepClone m)) k"
    proof (cases "fmlookup m k")
      case None
      then show ?thesis by (simp add: fmlookup_dropUndefined)
    next
      case (Some v)
      then have "v \<in> fmran' m" by (rule fmran'I)
      then have "deepClone (deepClone v) = deepClone v" by (rule JObj.IH)
      with Some show ?thesis by (simp add: fmlookup_dropUndefined)
    qed
  qed
  then show ?case by simp
qed simp_all

lemma deepClone_undefined_iff: "deepClone x = JUndefined \<longleftrightarrow> x = JUndefined"
  by (cases x) simp_all

lemma deepClone_nullish: "nullish (deepClone x) = nullish x"
  by (cases x) simp_all

lemma deepClone_deleteProp:
  "deepClone (deleteProp (deepClone x) k) = deleteProp (deepClone x) k"
proof (cases x)
  case (JObj f)
  have "dropUndefined (fmmap deepClone (fmdrop k (dropUndefined (fmmap deepClone f))))
          = fmdrop k (dropUndefined (fmmap deepClone f))"
  proof (rule fmap_ext)
    fix j
    show "fmlookup (dropUndefined (fmmap deepClone (fmdrop k (dropUndefined (fmmap deepClone f))))) j
            = fmlookup (fmdrop k (dropUndefined (fmmap deepClone f))) j"
      by (cases "fmlookup f j") (simp_all add: fmlookup_dropUndefined deepClone_idem)
  qed
  with JObj show ?thesis by simp
next
  case (JArr xs)
  then show ?thesis
    using deepClone_idem [of "JArr xs"] by simp
qed simp_all

lemma deepClone_sigObject: "deepClone (sigObject s) = sigObject s"
  unfolding sigObject_def deepClone.simps jsval.inject
  by (rule fmap_ext) (simp add: fmlookup_dropUndefined fmlookup_of_list)

lemma sigObject_defined: "sigObject s \<noteq> JUndefined"
  by (simp add: sigObject_def)

lemma deepClone_sigsObject: "deepClone (sigsObject ss) = sigsObject ss"
proof -
  have "dropUndefined (fmmap deepClone (fmap_of_list xs)) = fmap_of_list xs"
    if "\<forall>(k, v) \<in> set xs. deepClone v = v \<and> v \<noteq> JUndefined" for xs :: "(string \<times> jsval) list"
  proof (rule fmap_ext)
    fix k
    show "fmlookup (dropUndefined (fmmap deepClone (fmap_of_list xs))) k
            = fmlookup (fmap_of_list xs) k"
    proof (cases "map_of xs k")
      case None
      then show ?thesis by (simp add: fmlookup_dropUndefined fmlookup_of_list)
    next
      case (Some v)
      then have "(k, v) \<in> set xs" by (rule map_of_SomeD)
      with that have "deepClone v = v \<and> v \<noteq> JUndefined" by blast
      with Some show ?thesis by (simp add: fmlookup_dropUndefined fmlookup_of_list)
    qed
  qed
  note fixed = this
  show ?thesis
    unfolding sigsObject_def deepClone.simps jsval.inject
    by (rule fixed) (auto simp: deepClone_sigObject sigObject_defined split: option.splits)
qed

lemma sigsObject_defined: "sigsObject ss \<noteq> JUndefined"
  by (simp add: sigsObject_def)

lemma toObject_toJSON:
  assumes "core m \<noteq> JUndefined"
  shows "toObject (toJSON m) = deepClone (toObject m)"
proof -
  have look: "fmlookup (fmap_of_list
       ([(''mandateId'', JStr (mandateId m)),
         (''version'', JStr (version m)),
         (''client'', JStr (client m)),
         (''server'', JStr (server m)),
         (''createdAt'', JStr (createdAt m)),
         (''deadline'', JStr (deadline m)),
         (''intent'', JStr (intent m)),
         (''core'', deepClone (core m))] @ sp)) k
     = fmlookup (dropUndefined (fmmap deepClone (fmap_of_list
       ([(''mandateId'', JStr (mandateId m)),
         (''version'', JStr (version m)),
         (''client'', JStr (client m)),
         (''server'', JStr (server m)),
         (''createdAt'', JStr (createdAt m)),
         (''deadline'', JStr (deadline m)),
         (''intent'', JStr (intent m)),
         (''core'', core m)] @ sp)))) k"
    if "sp = [] \<or> (\<exists>ss. sp = [(''signatures'', sigsObject ss)])" for sp k
    using that assms
    by (auto simp: fmlookup_dropUndefined fmlookup_of_list deepClone_sigsObject
        sigsObject_defined deepClone_undefined_iff split: if_splits)
  have shape: "toObject (toJSON m) = deepClone (toObject m)"
    if sp: "sp = [] \<or> (\<exists>ss. sp = [(''signatures'', sigsObject ss)])"
      and sg: "(case signatures m of None \<Rightarrow> [] | Some ss \<Rightarrow> [(''signatures'', sigsObject ss)]) = sp"
    for sp
  proof -
    have l: "toObject (toJSON m) = JObj (fmap_of_list
       ([(''mandateId'', JStr (mandateId m)),
         (''version'', JStr (version m)),
         (''client'', JStr (client m)),
         (''server'', JStr (server m)),
         (''createdAt'', JStr (createdAt m)),
         (''deadline'', JStr (deadline m)),
         (''intent'', JStr (intent m)),
         (''core'', deepClone (core m))] @ sp))"
      using sg by (simp add: toObject_def toJSON_def del: fmap_of_list_simps)
    have r: "deepClone (toObject m) = JObj (dropUndefined (fmmap deepClone (fmap_of_list
       ([(''mandateId'', JStr (mandateId m)),
         (''version'', JStr (version m)),
         (''client'', JStr (client m)),
         (''server'', JStr (server m)),
         (''createdAt'', JStr (createdAt m)),
         (''deadline'', JStr (deadline m)),
         (''intent'', JStr (intent m)),
         (''core'', core m)] @ sp))))"
      using sg by (simp add: toObject_def del: fmap_of_list_simps)
    show ?thesis
      unfolding l r jsval.inject by (rule fmap_ext) (rule look [OF sp])
  qed
  show ?thesis
    by (cases "signatures m") (auto intro: shape)
qed

lemma toJSON_idem: "toJSON (toJSON m) = toJSON m"
  by (simp add: toJSON_def deepClone_idem)

lemma toJSON_parties: "client (toJSON m) = client m" "server (toJSON m) = server m"
  by (simp_all add: toJSON_def)

section \<open>The hashed document\<close>

lemma hashed_document:
  "deleteProp (deepClone (toObject m)) ''signatures''
     = JObj (dropUndefined (fmap_of_list
         [(''mandateId'', JStr (mandateId m)),
          (''version'', JStr (version m)),
          (''client'', JStr (client m)),
          (''server'', JStr (server m)),
          (''createdAt'', JStr (createdAt m)),
          (''deadline'', JStr (deadline m)),
          (''intent'', JStr (intent m)),
          (''core'', deepClone (core m))]))"
  unfolding toObject_def deepClone.simps deleteProp.simps jsval.inject
  by (rule fmap_ext) (simp add: fmlookup_dropUndefined fmlookup_of_list split: option.splits)

lemma hashed_document_eq_iff:
  "deleteProp (deepClone (toObject m')) ''signatures''
     = deleteProp (deepClone (toObject m)) ''signatures''
   \<longleftrightarrow> mandateId m' = mandateId m \<and> version m' = version m \<and> client m' = client m
       \<and> server m' = server m \<and> createdAt m' = createdAt m \<and> deadline m' = deadline m
       \<and> intent m' = intent m \<and> deepClone (core m') = deepClone (core m)"
  (is "?L \<longleftrightarrow> ?R")
proof
  assume ?R
  then show ?L by (simp add: hashed_document)
next
  assume ?L
  then have eq: "\<And>k. fmlookup (dropUndefined (fmap_of_list
         [(''mandateId'', JStr (mandateId m')),
          (''version'', JStr (version m')),
          (''client'', JStr (client m')),
          (''server'', JStr (server m')),
          (''createdAt'', JStr (createdAt m')),
          (''deadline'', JStr (deadline m')),
          (''intent'', JStr (intent m')),
          (''core'', deepClone (core m'))])) k
      = fmlookup (dropUndefined (fmap_of_list
         [(''mandateId'', JStr (mandateId m)),
          (''version'', JStr (version m)),
          (''client'', JStr (client m)),
          (''server'', JStr (server m)),
          (''createdAt'', JStr (createdAt m)),
          (''deadline'', JStr (deadline m)),
          (''intent'', JStr (intent m)),
          (''core'', deepClone (core m))])) k"
    by (simp add: hashed_document)
  have "mandateId m' = mandateId m"
    using eq [of "''mandateId''"] by (simp add: fmlookup_dropUndefined fmlookup_of_list)
  moreover have "version m' = version m"
    using eq [of "''version''"] by (simp add: fmlookup_dropUndefined fmlookup_of_list)
  moreover have "client m' = client m"
    using eq [of "''client''"] by (simp add: fmlookup_dropUndefined fmlookup_of_list)
  moreover have "server m' = server m"
    using eq [of "''server''"] by (simp add: fmlookup_dropUndefined fmlookup_of_list)
  moreover have "createdAt m' = createdAt m"
    using eq [of "''createdAt''"] by (simp add: fmlookup_dropUndefined fmlookup_of_list)
  moreover have "deadline m' = deadline m"
    using eq [of "''deadline''"] by (simp add: fmlookup_dropUndefined fmlookup_of_list)
  moreover have "intent m' = intent m"
    using eq [of "''intent''"] by (simp add: fmlookup_dropUndefined fmlookup_of_list)
  moreover have "deepClone (core m') = deepClone (core m)"
    using eq [of "''core''"]
    by (simp add: fmlookup_dropUndefined fmlookup_of_list split: if_splits)
  ultimately show ?R by simp
qed

lemma toCanonicalString_signatures:
  "toCanonicalString L (m\<lparr>signatures := ss\<rparr>) = toCanonicalString L m"
  by (simp add: toCanonicalString_def canonicalizeForHash_def hashed_document)

lemma mandateHash_signatures:
  "Mandate_mandateHash L (m\<lparr>signatures := ss\<rparr>) = Mandate_mandateHash L m"
  by (simp add: Mandate_mandateHash_def computeMandateHash_def canonicalizeForHash_def
      hashed_document)

lemma attachSig_signatures: "attachSig r sg m = m\<lparr>signatures := signatures (attachSig r sg m)\<rparr>"
  by (simp add: attachSig_def Let_def)

lemma sign_signatures:
  "snd (sign L r w a d m) = m\<lparr>signatures := signatures (snd (sign L r w a d m))\<rparr>"
  by (auto simp: sign_def Let_def attachSig_def split: sum.splits option.splits)

lemma mandateHash_sign:
  "Mandate_mandateHash L (snd (sign L' r w a d m)) = Mandate_mandateHash L m"
  by (subst sign_signatures) (rule mandateHash_signatures)

lemma mandateHash_cases:
  "Mandate_mandateHash L m = Inl CanonicalizeEmpty
   \<or> (\<exists>jcs. canonicalize L (deleteProp (deepClone (toObject m)) ''signatures'') = Some jcs
          \<and> jcs \<noteq> [] \<and> toCanonicalString L m = Inr jcs
          \<and> Mandate_mandateHash L m = Inr (keccak256 L (toUtf8Bytes L jcs)))"
  by (auto simp: Mandate_mandateHash_def computeMandateHash_def canonicalizeForHash_def
      toCanonicalString_def Let_def split: option.splits)

lemma canonical_string_cases:
  "toCanonicalString L m = Inr jcs
     \<Longrightarrow> canonicalize L (deleteProp (deepClone (toObject m)) ''signatures'') = Some jcs"
  by (auto simp: toCanonicalString_def canonicalizeForHash_def Let_def
      split: option.splits if_splits)

lemma canonical_string_determines_fields:
  assumes canon: "\<forall>x y. deepClone x = x \<and> deepClone y = y \<and> canonicalize L x = canonicalize L y
                    \<longrightarrow> x = y"
      and "toCanonicalString L m' = Inr jcs" "toCanonicalString L m = Inr jcs"
  shows "mandateId m' = mandateId m \<and> version m' = version m \<and> client m' = client m
       \<and> server m' = server m \<and> createdAt m' = createdAt m \<and> deadline m' = deadline m
       \<and> intent m' = intent m \<and> deepClone (core m') = deepClone (core m)"
proof -
  let ?doc = "\<lambda>m. deleteProp (deepClone (toObject m)) ''signatures''"
  from assms(2,3) have "canonicalize L (?doc m') = canonicalize L (?doc m)"
    by (simp add: canonical_string_cases)
  moreover have "deepClone (?doc m') = ?doc m'" "deepClone (?doc m) = ?doc m"
    by (rule deepClone_deleteProp)+
  ultimately have "?doc m' = ?doc m" using canon by blast
  then show ?thesis by (simp only: hashed_document_eq_iff)
qed

lemma mandateHash_errors: "Mandate_mandateHash L m = Inl e \<Longrightarrow> e = CanonicalizeEmpty"
  by (auto simp: Mandate_mandateHash_def computeMandateHash_def canonicalizeForHash_def Let_def
      split: option.splits if_splits sum.splits)

lemma mandateHash_recovery_free:
  "Mandate_mandateHash (L\<lparr>verifyMessage := vm, verifyTypedData := vt\<rparr>) m = Mandate_mandateHash L m"
  by (simp add: Mandate_mandateHash_def computeMandateHash_def canonicalizeForHash_def
      split: sum.splits option.splits)

lemma hash_of_canonical:
  "toCanonicalString L m = Inr jcs \<Longrightarrow> Mandate_mandateHash L m = Inr (keccak256 L (toUtf8Bytes L jcs))"
  by (simp add: toCanonicalString_def Mandate_mandateHash_def computeMandateHash_def)

lemma attachSig_fields:
  "roleId r' (attachSig r sg m) = roleId r' m"
  "toCanonicalString L (attachSig r sg m) = toCanonicalString L m"
  "Mandate_mandateHash L (attachSig r sg m) = Mandate_mandateHash L m"
proof -
  show "roleId r' (attachSig r sg m) = roleId r' m"
    by (cases r') (simp_all add: roleId_def attachSig_def Let_def)
  show "toCanonicalString L (attachSig r sg m) = toCanonicalString L m"
    by (subst attachSig_signatures) (rule toCanonicalString_signatures)
  show "Mandate_mandateHash L (attachSig r sg m) = Mandate_mandateHash L m"
    by (subst attachSig_signatures) (rule mandateHash_signatures)
qed

section \<open>Facts about the example values\<close>

lemma libs0_canonical: "toCanonicalString libs0 m = Inr (''{intent:'' @ intent m @ ''}'')"
  by (simp add: toCanonicalString_def canonicalizeForHash_def hashed_document libs0_def
      fmlookup_dropUndefined fmlookup_of_list)

lemma libs0_hash: "Mandate_mandateHash libs0 m = Inr (''0x{intent:'' @ intent m @ ''}'')"
  by (simp add: Mandate_mandateHash_def computeMandateHash_def canonicalizeForHash_def
      hashed_document libs0_def fmlookup_dropUndefined fmlookup_of_list)

lemma libs0_fields:
  "toUtf8Bytes libs0 s = s"
  "keccak256 libs0 b = ''0x'' @ b"
  "verifyMessage libs0 msg sg = (if sg = ''A:'' @ msg then Some ''0xAAA''
                                 else if sg = ''B:'' @ msg then Some ''0xBBB'' else None)"
  "verifyTypedData libs0 dd h sg = (if sg = ''A:'' @ h then Some ''0xAAA''
                                    else if sg = ''B:'' @ h then Some ''0xBBB'' else None)"
  by (simp_all add: libs0_def)

lemma sign0_A191:
  "intent m = [] \<Longrightarrow> sign libs0 r walletA None d m = (Inr sigA191, attachSig r sigA191 m)"
  by (simp add: sign_def Let_def libs0_canonical sigA191_def walletA_def libs0_fields)

lemma sign0_B191:
  "intent m = [] \<Longrightarrow> sign libs0 r walletB None d m = (Inr sigB191, attachSig r sigB191 m)"
  by (simp add: sign_def Let_def libs0_canonical sigB191_def walletB_def libs0_fields)

lemma sign0_A712:
  "intent m = [] \<Longrightarrow> sign libs0 r walletA (Some ''eip712'') (Some domain0) m
     = (Inr sigA712, attachSig r sigA712 m)"
  by (simp add: sign_def Let_def libs0_canonical sigA712_def walletA_def libs0_fields domain0_def)

lemma walletA_sound:
  "\<forall>msg. signMessage walletA msg \<noteq> None"
  "\<forall>dd h. signTypedData walletA dd h \<noteq> None"
  "\<forall>msg sg. signMessage walletA msg = Some sg \<longrightarrow> verifyMessage libs0 msg sg = Some (address walletA)"
  "\<forall>dd h sg. signTypedData walletA dd h = Some sg
     \<longrightarrow> verifyTypedData libs0 dd h sg = Some (address walletA)"
  by (auto simp: walletA_def libs0_fields)

lemma lower_examples:
  "toLowerCase [] = []"
  "toLowerCase ''0x{intent:}'' = ''0x{intent:}''"
  "toLowerCase ''0xAAA'' = ''0xaaa''"
  "toLowerCase ''0xAaA'' = ''0xaaa''"
  "toLowerCase ''0xBBB'' = ''0xbbb''"
  "toLowerCase ''0xBbB'' = ''0xbbb''"
  "toLowerCase ''0xCcC'' = ''0xccc''"
  by code_simp+

lemma signedMandate0_fields:
  "client signedMandate0 = ''eip155:1:0xAaA''"
  "server signedMandate0 = ''eip155:1:0xBbB''"
  "intent signedMandate0 = []"
  "deadline signedMandate0 = ''2025-01-01T00:15:00.000Z''"
  "signatures signedMandate0 = Some \<lparr>clientSig = Some sigA191, serverSig = Some sigB191\<rparr>"
  by (simp_all add: signedMandate0_def mandate0_def)

lemma fromObject_signedInit0: "fromObject env0 signedInit0 = Inr signedMandate0"
  by (simp add: fromObject_def Mandate_constructor_def env0_def signedInit0_def init0_def
      signedMandate0_def mandate0_def)

lemma verifyAll_signedMandate0: "verifyAll libs0 None None signedMandate0 = Inr verified0"
  by (simp add: verifyAll_def verifyRole_def recover_def roleSig_def roleId_def libs0_hash
      libs0_canonical libs0_fields signedMandate0_fields sigA191_def sigB191_def lower_examples
      numeral_2_eq_2 verified0_def)

lemma addr0_signedMandate0:
  "addr0 (client signedMandate0) = Some ''0xAaA''"
  "addr0 (server signedMandate0) = Some ''0xBbB''"
  by (simp_all add: addr0_def signedMandate0_fields numeral_2_eq_2)

lemma libsInj_canonical_inj:
  "canonicalize libsInj x = canonicalize libsInj y \<Longrightarrow> x = y"
proof -
  assume "canonicalize libsInj x = canonicalize libsInj y"
  then have "replicate (to_nat x) CHR ''x'' = replicate (to_nat y) CHR ''x''"
    by (simp add: libsInj_def)
  then have "length (replicate (to_nat x) CHR ''x'') = length (replicate (to_nat y) CHR ''x'')"
    by (rule arg_cong)
  then show "x = y" by simp
qed

lemma libsInj_hash_inj: "inj (\<lambda>s. keccak256 libsInj (toUtf8Bytes libsInj s))"
proof (rule injI)
  fix s t :: string
  assume "keccak256 libsInj (toUtf8Bytes libsInj s) = keccak256 libsInj (toUtf8Bytes libsInj t)"
  then have "length (replicate (to_nat s) CHR ''0'') = length (replicate (to_nat t) CHR ''0'')"
    by (simp add: libsInj_def)
  then show "s = t" by simp
qed

lemma libsInj_defined: "Mandate_mandateHash libsInj m \<noteq> Inl CanonicalizeEmpty"
  by (simp add: Mandate_mandateHash_def computeMandateHash_def canonicalizeForHash_def
      libsInj_def)

lemma lowerChar_examples: "lowerChar CHR ''0'' = CHR ''0''" "lowerChar CHR ''x'' = CHR ''x''"
  by code_simp+

lemma libsInj_hash_lower:
  "toLowerCase (keccak256 libsInj (toUtf8Bytes libsInj s)) = keccak256 libsInj (toUtf8Bytes libsInj s)"
  by (simp add: libsInj_def toLowerCase_def lowerChar_examples)

lemma libsInj_hash_lower_inj: "inj (\<lambda>s. toLowerCase (keccak256 libsInj (toUtf8Bytes libsInj s)))"
  unfolding libsInj_hash_lower by (rule libsInj_hash_inj)

lemma libsInj_sign:
  "\<exists>sg. sign libsInj r walletA None d m = (Inr sg, attachSig r sg m)"
  by (simp add: sign_def Let_def toCanonicalString_def canonicalizeForHash_def libsInj_def
      walletA_def)

section \<open>The canonical hash leaves the signatures out\<close>

text \<open>
  C1. The canonical string is the canonical form of the document made of \<open>mandateId\<close>,
  \<open>version\<close>, \<open>client\<close>, \<open>server\<close>, \<open>createdAt\<close>, \<open>deadline\<close>, \<open>intent\<close> and
  \<open>core\<close>, without the \<open>signatures\<close>, and the hash is the library hash of the bytes of
  that string. Setting, replacing or removing the signatures changes neither, and the
  hash after \<open>sign\<close> is the hash before it. Two mandates that agree on the eight fields
  have the same canonical string and the same hash. Conversely, when the canonicaliser
  is injective on JSON values, two mandates with the same canonical string agree on the
  eight fields; and when moreover the canonical strings of the two mandates, if they
  differ, do not collide under the hash, two mandates with the same hash agree on them:
  the hash changes if and only if a field other than \<open>signatures\<close> changes. A core that is
  a JSON value is compared as it is; any other core by what \<open>JSON.stringify\<close> keeps of it.
\<close>

theorem mandateHash_excludes_signatures:
  "toCanonicalString L m
     = (case canonicalize L (JObj (dropUndefined (fmap_of_list
              [(''mandateId'', JStr (mandateId m)),
               (''version'', JStr (version m)),
               (''client'', JStr (client m)),
               (''server'', JStr (server m)),
               (''createdAt'', JStr (createdAt m)),
               (''deadline'', JStr (deadline m)),
               (''intent'', JStr (intent m)),
               (''core'', deepClone (core m))]))) of
          None \<Rightarrow> Inl CanonicalizeEmpty
        | Some jcs \<Rightarrow> if jcs = [] then Inl CanonicalizeEmpty else Inr jcs)
   \<and> Mandate_mandateHash L m
     = (case toCanonicalString L m of
          Inl e \<Rightarrow> Inl e
        | Inr jcs \<Rightarrow> Inr (keccak256 L (toUtf8Bytes L jcs)))
   \<and> toCanonicalString L (m\<lparr>signatures := ss\<rparr>) = toCanonicalString L m
   \<and> Mandate_mandateHash L (m\<lparr>signatures := ss\<rparr>) = Mandate_mandateHash L m
   \<and> Mandate_mandateHash L (snd (sign L r w a d m)) = Mandate_mandateHash L m
   \<and> (mandateId m' = mandateId m \<and> version m' = version m \<and> client m' = client m
        \<and> server m' = server m \<and> createdAt m' = createdAt m \<and> deadline m' = deadline m
        \<and> intent m' = intent m \<and> deepClone (core m') = deepClone (core m)
      \<longrightarrow> toCanonicalString L m' = toCanonicalString L m
        \<and> Mandate_mandateHash L m' = Mandate_mandateHash L m)
   \<and> ((\<forall>x y. deepClone x = x \<and> deepClone y = y \<and> canonicalize L x = canonicalize L y
               \<longrightarrow> x = y)
        \<and> toCanonicalString L m \<noteq> Inl CanonicalizeEmpty
      \<longrightarrow> (toCanonicalString L m' = toCanonicalString L m
            \<longleftrightarrow> mandateId m' = mandateId m \<and> version m' = version m \<and> client m' = client m
                \<and> server m' = server m \<and> createdAt m' = createdAt m
                \<and> deadline m' = deadline m \<and> intent m' = intent m
                \<and> deepClone (core m') = deepClone (core m)))
   \<and> ((\<forall>x y. deepClone x = x \<and> deepClone y = y \<and> canonicalize L x = canonicalize L y
               \<longrightarrow> x = y)
        \<and> (\<forall>j j'. toCanonicalString L m = Inr j \<and> toCanonicalString L m' = Inr j' \<and> j' \<noteq> j
               \<longrightarrow> keccak256 L (toUtf8Bytes L j') \<noteq> keccak256 L (toUtf8Bytes L j))
        \<and> Mandate_mandateHash L m \<noteq> Inl CanonicalizeEmpty
      \<longrightarrow> (Mandate_mandateHash L m' = Mandate_mandateHash L m
            \<longleftrightarrow> mandateId m' = mandateId m \<and> version m' = version m \<and> client m' = client m
                \<and> server m' = server m \<and> createdAt m' = createdAt m
                \<and> deadline m' = deadline m \<and> intent m' = intent m
                \<and> deepClone (core m') = deepClone (core m)))
   \<and> ((\<forall>x y. deepClone x = x \<and> deepClone y = y \<and> canonicalize L x = canonicalize L y
               \<longrightarrow> x = y)
        \<and> (\<forall>j j'. toCanonicalString L m = Inr j \<and> toCanonicalString L m' = Inr j' \<and> j' \<noteq> j
               \<longrightarrow> keccak256 L (toUtf8Bytes L j') \<noteq> keccak256 L (toUtf8Bytes L j))
        \<and> Mandate_mandateHash L m \<noteq> Inl CanonicalizeEmpty
        \<and> deepClone (core m) = core m \<and> deepClone (core m') = core m'
      \<longrightarrow> (Mandate_mandateHash L m' = Mandate_mandateHash L m
            \<longleftrightarrow> mandateId m' = mandateId m \<and> version m' = version m \<and> client m' = client m
                \<and> server m' = server m \<and> createdAt m' = createdAt m
                \<and> deadline m' = deadline m \<and> intent m' = intent m
                \<and> core m' = core m))"
proof -
  let ?doc = "\<lambda>m. deleteProp (deepClone (toObject m)) ''signatures''"
  let ?fields = "mandateId m' = mandateId m \<and> version m' = version m \<and> client m' = client m
        \<and> server m' = server m \<and> createdAt m' = createdAt m \<and> deadline m' = deadline m
        \<and> intent m' = intent m \<and> deepClone (core m') = deepClone (core m)"
  let ?canon = "\<forall>x y. deepClone x = x \<and> deepClone y = y \<and> canonicalize L x = canonicalize L y
                  \<longrightarrow> x = y"
  let ?nocoll = "\<forall>j j'. toCanonicalString L m = Inr j \<and> toCanonicalString L m' = Inr j' \<and> j' \<noteq> j
                  \<longrightarrow> keccak256 L (toUtf8Bytes L j') \<noteq> keccak256 L (toUtf8Bytes L j)"
  have form: "toCanonicalString L m
     = (case canonicalize L (JObj (dropUndefined (fmap_of_list
              [(''mandateId'', JStr (mandateId m)),
               (''version'', JStr (version m)),
               (''client'', JStr (client m)),
               (''server'', JStr (server m)),
               (''createdAt'', JStr (createdAt m)),
               (''deadline'', JStr (deadline m)),
               (''intent'', JStr (intent m)),
               (''core'', deepClone (core m))]))) of
          None \<Rightarrow> Inl CanonicalizeEmpty
        | Some jcs \<Rightarrow> if jcs = [] then Inl CanonicalizeEmpty else Inr jcs)"
    unfolding toCanonicalString_def canonicalizeForHash_def Let_def hashed_document ..
  have hash: "Mandate_mandateHash L m
     = (case toCanonicalString L m of
          Inl e \<Rightarrow> Inl e
        | Inr jcs \<Rightarrow> Inr (keccak256 L (toUtf8Bytes L jcs)))"
    unfolding Mandate_mandateHash_def computeMandateHash_def toCanonicalString_def ..
  have same: "toCanonicalString L m' = toCanonicalString L m
        \<and> Mandate_mandateHash L m' = Mandate_mandateHash L m" if ?fields
  proof -
    from that have "?doc m' = ?doc m" by (simp only: hashed_document_eq_iff)
    then show ?thesis
      by (simp add: Mandate_mandateHash_def computeMandateHash_def canonicalizeForHash_def
          toCanonicalString_def)
  qed
  have canon_iff: "toCanonicalString L m' = toCanonicalString L m \<longleftrightarrow> ?fields"
    if h: "?canon \<and> toCanonicalString L m \<noteq> Inl CanonicalizeEmpty"
  proof
    assume eq: "toCanonicalString L m' = toCanonicalString L m"
    from h obtain j where j: "toCanonicalString L m = Inr j"
      by (auto simp: toCanonicalString_def canonicalizeForHash_def Let_def
          split: option.splits if_splits)
    from h have canon: ?canon by blast
    from canonical_string_determines_fields [OF canon, of m' j m] eq j show ?fields
      by simp
  next
    assume ?fields
    then show "toCanonicalString L m' = toCanonicalString L m"
      using same by blast
  qed
  have hash_iff: "Mandate_mandateHash L m' = Mandate_mandateHash L m \<longleftrightarrow> ?fields"
    if h: "?canon \<and> ?nocoll \<and> Mandate_mandateHash L m \<noteq> Inl CanonicalizeEmpty"
  proof
    assume eq: "Mandate_mandateHash L m' = Mandate_mandateHash L m"
    from h have canon: ?canon and nocoll: ?nocoll
      and defined: "Mandate_mandateHash L m \<noteq> Inl CanonicalizeEmpty"
      by blast+
    from defined mandateHash_cases [of L m] obtain j where
      j: "toCanonicalString L m = Inr j"
        "Mandate_mandateHash L m = Inr (keccak256 L (toUtf8Bytes L j))"
      by blast
    from eq j(2) mandateHash_cases [of L m'] obtain j' where
      j': "toCanonicalString L m' = Inr j'"
        "Mandate_mandateHash L m' = Inr (keccak256 L (toUtf8Bytes L j'))"
      by auto
    from eq j(2) j'(2) have "keccak256 L (toUtf8Bytes L j') = keccak256 L (toUtf8Bytes L j)"
      by simp
    with nocoll j(1) j'(1) have "j' = j" by blast
    with canonical_string_determines_fields [OF canon, of m' j m] j(1) j'(1) show ?fields
      by simp
  next
    assume ?fields
    then show "Mandate_mandateHash L m' = Mandate_mandateHash L m"
      using same by blast
  qed
  have json_iff: "Mandate_mandateHash L m' = Mandate_mandateHash L m
            \<longleftrightarrow> mandateId m' = mandateId m \<and> version m' = version m \<and> client m' = client m
                \<and> server m' = server m \<and> createdAt m' = createdAt m
                \<and> deadline m' = deadline m \<and> intent m' = intent m
                \<and> core m' = core m"
    if h: "?canon \<and> ?nocoll \<and> Mandate_mandateHash L m \<noteq> Inl CanonicalizeEmpty
        \<and> deepClone (core m) = core m \<and> deepClone (core m') = core m'"
  proof -
    from h have g: "?canon \<and> ?nocoll \<and> Mandate_mandateHash L m \<noteq> Inl CanonicalizeEmpty"
      by blast
    from h have j: "deepClone (core m) = core m" "deepClone (core m') = core m'"
      by blast+
    show ?thesis by (simp only: hash_iff [OF g] j)
  qed
  show ?thesis
    apply (intro conjI impI)
             apply (rule form)
            apply (rule hash)
           apply (rule toCanonicalString_signatures)
          apply (rule mandateHash_signatures)
         apply (rule mandateHash_sign)
        apply (erule same [THEN conjunct1])
       apply (erule same [THEN conjunct2])
      apply (erule canon_iff)
     apply (erule hash_iff)
    apply (erule json_iff)
    done
qed

theorem mandateHash_excludes_signatures_witness:
  "toCanonicalString libs0 mandate0 = Inr ''{intent:}''
   \<and> toCanonicalString libs0 signedMandate0 = Inr ''{intent:}''
   \<and> Mandate_mandateHash libs0 signedMandate0 = Inr ''0x{intent:}''
   \<and> Mandate_mandateHash libsInj
       (mandate0\<lparr>signatures := Some \<lparr>clientSig = None, serverSig = Some sig0\<rparr>\<rparr>)
     = Mandate_mandateHash libsInj mandate0
   \<and> Mandate_mandateHash libsInj (mandate0\<lparr>intent := ''pay more''\<rparr>)
       \<noteq> Mandate_mandateHash libsInj mandate0
   \<and> Mandate_mandateHash libsInj
         (mandate0\<lparr>core := JObj (fmap_of_list [(''a'', JNull)]), signatures := None\<rparr>)
       \<noteq> Mandate_mandateHash libsInj mandate0"
proof -
  note t0 = mandateHash_excludes_signatures
            [where L = libs0 and m = mandate0 and r = Client and w = walletA and a = None
               and d = None
               and ss = "Some \<lparr>clientSig = Some sigA191, serverSig = Some sigB191\<rparr>"
               and m' = mandate0]
  have k0: "toCanonicalString libs0 mandate0 = Inr ''{intent:}''"
    unfolding t0 [THEN conjunct1]
    by (simp add: libs0_def mandate0_def fmlookup_dropUndefined fmlookup_of_list)
  have k1: "toCanonicalString libs0 signedMandate0 = Inr ''{intent:}''"
    unfolding signedMandate0_def t0 [THEN conjunct2, THEN conjunct2, THEN conjunct1] by (rule k0)
  have k2: "Mandate_mandateHash libs0 signedMandate0 = Inr ''0x{intent:}''"
    unfolding signedMandate0_def
      t0 [THEN conjunct2, THEN conjunct2, THEN conjunct2, THEN conjunct1]
      t0 [THEN conjunct2, THEN conjunct1] k0
    by (simp add: libs0_fields)
  have c: "\<forall>x y. deepClone x = x \<and> deepClone y = y
             \<and> canonicalize libsInj x = canonicalize libsInj y \<longrightarrow> x = y"
    using libsInj_canonical_inj by blast
  have n: "\<forall>j j'. toCanonicalString libsInj mandate0 = Inr j
             \<and> toCanonicalString libsInj m' = Inr j' \<and> j' \<noteq> j
             \<longrightarrow> keccak256 libsInj (toUtf8Bytes libsInj j')
                   \<noteq> keccak256 libsInj (toUtf8Bytes libsInj j)" for m'
    using libsInj_hash_inj by (auto dest: injD)
  have ne: "deepClone (JObj (fmap_of_list [(''a'', JNull)])) \<noteq> deepClone (JObj fmempty)"
  proof
    assume "deepClone (JObj (fmap_of_list [(''a'', JNull)])) = deepClone (JObj fmempty)"
    then have "fmlookup (dropUndefined (fmmap deepClone (fmap_of_list [(''a'', JNull)]))) ''a''
                 = fmlookup (dropUndefined (fmmap deepClone fmempty)) ''a''"
      by simp
    then show False by (simp add: fmlookup_dropUndefined fmlookup_of_list)
  qed
  note t1 = mandateHash_excludes_signatures
            [where L = libsInj and m = mandate0 and r = Client and w = walletA and a = None and d = None
               and ss = "Some \<lparr>clientSig = None, serverSig = Some sig0\<rparr>"
               and m' = "mandate0\<lparr>intent := ''pay more''\<rparr>"]
  note t2 = mandateHash_excludes_signatures
            [where L = libsInj and m = mandate0 and r = Client and w = walletA and a = None and d = None
               and m' = "mandate0\<lparr>core := JObj (fmap_of_list [(''a'', JNull)]), signatures := None\<rparr>"]
  have a: "Mandate_mandateHash libsInj
       (mandate0\<lparr>signatures := Some \<lparr>clientSig = None, serverSig = Some sig0\<rparr>\<rparr>)
     = Mandate_mandateHash libsInj mandate0"
    using t1 by blast
  have "intent (mandate0\<lparr>intent := ''pay more''\<rparr>) \<noteq> intent mandate0"
    by (simp add: mandate0_def)
  with t1 c n [of "mandate0\<lparr>intent := ''pay more''\<rparr>"] libsInj_defined [of mandate0]
  have b: "Mandate_mandateHash libsInj (mandate0\<lparr>intent := ''pay more''\<rparr>)
       \<noteq> Mandate_mandateHash libsInj mandate0"
    by blast
  have "deepClone (core (mandate0\<lparr>core := JObj (fmap_of_list [(''a'', JNull)]), signatures := None\<rparr>))
          \<noteq> deepClone (core mandate0)"
    using ne by (simp add: mandate0_def)
  with t2 c
    n [of "mandate0\<lparr>core := JObj (fmap_of_list [(''a'', JNull)]), signatures := None\<rparr>"]
    libsInj_defined [of mandate0]
  have "Mandate_mandateHash libsInj
         (mandate0\<lparr>core := JObj (fmap_of_list [(''a'', JNull)]), signatures := None\<rparr>)
       \<noteq> Mandate_mandateHash libsInj mandate0"
    by blast
  with a b k0 k1 k2 show ?thesis by blast
qed

section \<open>The primitive registry guards against a second registration\<close>

text \<open>
  C7. Registering a kind that is already registered fails and leaves the registry as it
  was, so that a lookup still returns the definition registered first; registering a new
  kind stores the definition, after which a second registration of that kind fails;
  \<open>getPrimitive\<close> of a kind that is not registered fails with the unknown-primitive
  error; \<open>hasPrimitive\<close> is a total boolean function, true exactly of the registered kinds.
\<close>

theorem registry_duplicate_guard:
  "(\<forall>d0. reg (kind d) = Some d0 \<longrightarrow>
        registerPrimitive d reg = (Inl (PrimitiveAlreadyRegistered (kind d)), reg)
      \<and> getPrimitive reg (kind d) = Inr d0)
   \<and> (reg (kind d) = None \<longrightarrow>
        registerPrimitive d reg = (Inr (), reg(kind d \<mapsto> d))
      \<and> getPrimitive (reg(kind d \<mapsto> d)) (kind d) = Inr d
      \<and> (\<forall>d'. kind d' = kind d \<longrightarrow>
            registerPrimitive d' (reg(kind d \<mapsto> d))
              = (Inl (PrimitiveAlreadyRegistered (kind d)), reg(kind d \<mapsto> d))))
   \<and> (reg k = None \<longrightarrow> getPrimitive reg k = Inl (UnknownPrimitive k))
   \<and> (hasPrimitive reg k \<longleftrightarrow> k \<in> dom reg)"
  by (auto simp: registerPrimitive_def getPrimitive_def hasPrimitive_def)

theorem registry_duplicate_guard_witness:
  "registerPrimitive swapDef Map.empty = (Inr (), [''swap@1'' \<mapsto> swapDef])
   \<and> registerPrimitive swapDef2 [''swap@1'' \<mapsto> swapDef]
        = (Inl (PrimitiveAlreadyRegistered ''swap@1''), [''swap@1'' \<mapsto> swapDef])
   \<and> getPrimitive [''swap@1'' \<mapsto> swapDef] ''swap@1'' = Inr swapDef
   \<and> getPrimitive [''swap@1'' \<mapsto> swapDef] ''transfer@1'' = Inl (UnknownPrimitive ''transfer@1'')
   \<and> hasPrimitive [''swap@1'' \<mapsto> swapDef] ''swap@1''
   \<and> \<not> hasPrimitive [''swap@1'' \<mapsto> swapDef] ''transfer@1''"
  using registry_duplicate_guard [of Map.empty swapDef "''swap@1''"]
        registry_duplicate_guard [of "[''swap@1'' \<mapsto> swapDef]" swapDef2 "''transfer@1''"]
        registry_duplicate_guard [of "[''swap@1'' \<mapsto> swapDef]" swapDef2 "''swap@1''"]
  by (simp add: swapDef_def swapDef2_def)

section \<open>Construction\<close>

text \<open>
  C6, as amended. Construction fails with the client-and-server error when \<open>client\<close> or
  \<open>server\<close> is missing or empty, and with the deadline error when \<open>deadline\<close> is missing
  or empty. For any other input, whatever the form of the two identifiers, it succeeds:
  \<open>mandateId\<close> is the given one or a fresh identifier, \<open>createdAt\<close> the given one or the
  time of construction, \<open>intent\<close> the given one or the empty string, \<open>core\<close> the given
  one or the empty object.
\<close>

theorem constructor_required_fields:
  "((init_client init = None \<or> init_client init = Some [] \<or> init_server init = None
       \<or> init_server init = Some [])
      \<longrightarrow> Mandate_constructor E init = Inl ClientServerRequired)
   \<and> (\<forall>c s. init_client init = Some c \<and> c \<noteq> [] \<and> init_server init = Some s \<and> s \<noteq> []
         \<and> (init_deadline init = None \<or> init_deadline init = Some [])
      \<longrightarrow> Mandate_constructor E init = Inl DeadlineRequired)
   \<and> (\<forall>c s d. init_client init = Some c \<and> c \<noteq> [] \<and> init_server init = Some s \<and> s \<noteq> []
         \<and> init_deadline init = Some d \<and> d \<noteq> []
      \<longrightarrow> Mandate_constructor E init = Inr
            \<lparr>mandateId = (case init_mandateId init of None \<Rightarrow> ulid E | Some i \<Rightarrow> i),
             version = init_version init,
             client = c,
             server = s,
             createdAt = (case init_createdAt init of None \<Rightarrow> dateNowISO E | Some t \<Rightarrow> t),
             deadline = d,
             intent = (case init_intent init of None \<Rightarrow> [] | Some t \<Rightarrow> t),
             core = (if nullish (init_core init) then JObj fmempty else init_core init),
             signatures = init_signatures init\<rparr>)"
  by (auto simp: Mandate_constructor_def split: option.splits)

theorem constructor_required_fields_witness:
  "Mandate_constructor env0 (init0\<lparr>init_server := None\<rparr>) = Inl ClientServerRequired
   \<and> Mandate_constructor env0 (init0\<lparr>init_deadline := Some []\<rparr>) = Inl DeadlineRequired
   \<and> Mandate_constructor env0 init0 = Inr mandate0"
  using constructor_required_fields [of "init0\<lparr>init_server := None\<rparr>" env0]
        constructor_required_fields [of "init0\<lparr>init_deadline := Some []\<rparr>" env0]
        constructor_required_fields [of init0 env0]
  by (simp add: init0_def env0_def mandate0_def)

text \<open>
  C6 as stated fails: a \<open>client\<close> that is no chain-qualified identifier (it has no address
  component) is accepted.
\<close>

theorem constructor_accepts_malformed_identifier:
  "Mandate_constructor env0 (init0\<lparr>init_client := Some ''not-a-caip10''\<rparr>)
     = Inr (mandate0\<lparr>client := ''not-a-caip10''\<rparr>)
   \<and> index (split CHR '':'' ''not-a-caip10'') 2 = None"
  by (simp add: Mandate_constructor_def init0_def env0_def mandate0_def numeral_2_eq_2)

text \<open>
  C10, as amended. A mandate constructed from an init whose \<open>core\<close> is \<open>undefined\<close> or
  \<open>null\<close> has the empty object as core: \<open>is\<close> is false for every kind,
  \<open>coreAsKind\<close> fails with the kind-mismatch error for every kind and registry, and
  \<open>coreAs\<close> never fails with the core-missing error: without an expected kind (or with
  the empty string as expected kind) it hands the absent payload to the validator, with
  a non-empty expected kind it fails with the kind-mismatch error.
\<close>

theorem default_core_is_empty_object:
  assumes "nullish (init_core init)"
      and "Mandate_constructor E init = Inr m"
  shows "core m = JObj fmempty
       \<and> (\<forall>k. \<not> is_kind m k)
       \<and> (\<forall>reg k. coreAsKind reg k m = Inl (CoreKindMismatch k))
       \<and> (\<forall>schema ek. coreAs schema ek m \<noteq> Inl CoreMissing)
       \<and> (\<forall>schema. coreAs schema None m = runParse schema JUndefined)
       \<and> (\<forall>schema k. coreAs schema (Some k) m
             = (if k = [] then runParse schema JUndefined else Inl (CoreKindMismatch k)))"
proof -
  have c: "core m = JObj fmempty"
    using assms by (auto simp: Mandate_constructor_def split: option.splits if_splits)
  show ?thesis
    by (auto simp: c is_kind_def coreAsKind_def coreAs_def runParse_def
        split: option.splits sum.splits)
qed

theorem default_core_is_empty_object_witness:
  "core mandate0 = JObj fmempty
   \<and> \<not> is_kind mandate0 ''swap@1''
   \<and> coreAsKind [''swap@1'' \<mapsto> swapDef] ''swap@1'' mandate0 = Inl (CoreKindMismatch ''swap@1'')
   \<and> coreAs swapValidator None mandate0 = Inl (ValidationError ''amountIn: expected string'')
   \<and> coreAs anyValidator None mandate0 = Inr JUndefined
   \<and> coreAs anyValidator (Some ''swap@1'') mandate0 = Inl (CoreKindMismatch ''swap@1'')"
proof -
  have n: "nullish (init_core init0)" by (simp add: init0_def)
  have c: "Mandate_constructor env0 init0 = Inr mandate0"
    by (simp add: Mandate_constructor_def env0_def init0_def mandate0_def)
  from default_core_is_empty_object [OF n c] show ?thesis
    by (simp add: runParse_def swapValidator_def anyValidator_def)
qed

text \<open>
  C10 as stated fails: on a freshly constructed mandate \<open>coreAs\<close> with an expected kind
  does not hand the absent payload to the validator, which would accept it, but fails
  with the kind-mismatch error.
\<close>

theorem coreAs_expected_kind_on_default_core:
  "init_core init0 = JUndefined
   \<and> Mandate_constructor env0 init0 = Inr mandate0
   \<and> runParse anyValidator (getProp (core mandate0) ''payload'') = Inr JUndefined
   \<and> coreAs anyValidator (Some ''swap@1'') mandate0 = Inl (CoreKindMismatch ''swap@1'')"
  by (simp add: init0_def env0_def mandate0_def Mandate_constructor_def runParse_def
      anyValidator_def coreAs_def)

section \<open>Setting the core\<close>

lemma setCore_unknown:
  "\<not> hasPrimitive reg k \<Longrightarrow> setCore reg k p m = (Inl (UnknownPrimitive k), m)"
  by (simp add: setCore_def getPrimitive_def hasPrimitive_def)

lemma setCore_rejected:
  "getPrimitive reg k = Inr d \<Longrightarrow> parse (validator d) p = Inl msg
     \<Longrightarrow> setCore reg k p m = (Inl (ValidationError msg), m)"
  by (simp add: setCore_def runParse_def)

lemma setCore_accepted:
  "getPrimitive reg k = Inr d \<Longrightarrow> parse (validator d) p = Inr typed
     \<Longrightarrow> setCore reg k p m
           = (Inr (), m\<lparr>core := JObj (fmap_of_list [(''kind'', JStr k), (''payload'', typed)])\<rparr>)"
  by (simp add: setCore_def runParse_def)

lemma setCore_failure_keeps: "fst (setCore reg k p m) = Inl e \<Longrightarrow> snd (setCore reg k p m) = m"
  by (auto simp: setCore_def split: sum.splits)

lemma setCore_only_core: "snd (setCore reg k p m) = m\<lparr>core := core (snd (setCore reg k p m))\<rparr>"
  by (auto simp: setCore_def split: sum.splits)

text \<open>
  C8. \<open>setCore\<close> fails with the unknown-primitive error for a kind that is not registered
  and with the validator's error when the registered validator rejects the payload; a
  failing call leaves the mandate as it was; a successful call replaces \<open>core\<close> by the
  object of the kind and the validated payload; and in every case all fields other than
  \<open>core\<close>, the signatures among them, are unchanged.
\<close>

theorem setCore_frame:
  "(\<not> hasPrimitive reg k \<longrightarrow> setCore reg k p m = (Inl (UnknownPrimitive k), m))
   \<and> (\<forall>d msg. getPrimitive reg k = Inr d \<and> parse (validator d) p = Inl msg
         \<longrightarrow> setCore reg k p m = (Inl (ValidationError msg), m))
   \<and> (\<forall>e. fst (setCore reg k p m) = Inl e \<longrightarrow> snd (setCore reg k p m) = m)
   \<and> (\<forall>d typed. getPrimitive reg k = Inr d \<and> parse (validator d) p = Inr typed
         \<longrightarrow> setCore reg k p m
               = (Inr (), m\<lparr>core := JObj (fmap_of_list [(''kind'', JStr k), (''payload'', typed)])\<rparr>))
   \<and> mandateId (snd (setCore reg k p m)) = mandateId m
   \<and> version (snd (setCore reg k p m)) = version m
   \<and> client (snd (setCore reg k p m)) = client m
   \<and> server (snd (setCore reg k p m)) = server m
   \<and> createdAt (snd (setCore reg k p m)) = createdAt m
   \<and> deadline (snd (setCore reg k p m)) = deadline m
   \<and> intent (snd (setCore reg k p m)) = intent m
   \<and> signatures (snd (setCore reg k p m)) = signatures m"
proof -
  have frame: "snd (setCore reg k p m) = m\<lparr>core := core (snd (setCore reg k p m))\<rparr>"
    by (rule setCore_only_core)
  have fields: "mandateId (snd (setCore reg k p m)) = mandateId m
      \<and> version (snd (setCore reg k p m)) = version m
      \<and> client (snd (setCore reg k p m)) = client m
      \<and> server (snd (setCore reg k p m)) = server m
      \<and> createdAt (snd (setCore reg k p m)) = createdAt m
      \<and> deadline (snd (setCore reg k p m)) = deadline m
      \<and> intent (snd (setCore reg k p m)) = intent m
      \<and> signatures (snd (setCore reg k p m)) = signatures m"
    by (subst frame, simp)+
  show ?thesis
    using fields setCore_unknown [of reg k p m] setCore_rejected [of reg k _ p _ m]
      setCore_accepted [of reg k _ p _ m] setCore_failure_keeps [of reg k p m]
    by blast
qed

theorem setCore_frame_witness:
  "setCore [''swap@1'' \<mapsto> swapDef] ''transfer@1'' swapPayload
       (mandate0\<lparr>signatures := Some \<lparr>clientSig = None, serverSig = Some sig0\<rparr>\<rparr>)
     = (Inl (UnknownPrimitive ''transfer@1''),
        mandate0\<lparr>signatures := Some \<lparr>clientSig = None, serverSig = Some sig0\<rparr>\<rparr>)
   \<and> setCore [''swap@1'' \<mapsto> swapDef] ''swap@1'' (JObj fmempty)
       (mandate0\<lparr>signatures := Some \<lparr>clientSig = None, serverSig = Some sig0\<rparr>\<rparr>)
     = (Inl (ValidationError ''amountIn: expected string''),
        mandate0\<lparr>signatures := Some \<lparr>clientSig = None, serverSig = Some sig0\<rparr>\<rparr>)
   \<and> setCore [''swap@1'' \<mapsto> swapDef] ''swap@1'' swapPayload
       (mandate0\<lparr>signatures := Some \<lparr>clientSig = None, serverSig = Some sig0\<rparr>\<rparr>)
     = (Inr (),
        mandate0\<lparr>core := JObj (fmap_of_list [(''kind'', JStr ''swap@1''), (''payload'', swapPayload)]),
                 signatures := Some \<lparr>clientSig = None, serverSig = Some sig0\<rparr>\<rparr>)"
  using setCore_frame [of "[''swap@1'' \<mapsto> swapDef]" "''transfer@1''" swapPayload
          "mandate0\<lparr>signatures := Some \<lparr>clientSig = None, serverSig = Some sig0\<rparr>\<rparr>"]
        setCore_frame [of "[''swap@1'' \<mapsto> swapDef]" "''swap@1''" "JObj fmempty"
          "mandate0\<lparr>signatures := Some \<lparr>clientSig = None, serverSig = Some sig0\<rparr>\<rparr>"]
        setCore_frame [of "[''swap@1'' \<mapsto> swapDef]" "''swap@1''" swapPayload
          "mandate0\<lparr>signatures := Some \<lparr>clientSig = None, serverSig = Some sig0\<rparr>\<rparr>"]
  by (simp add: hasPrimitive_def getPrimitive_def swapDef_def swapValidator_def swapPayload_def
      fmlookup_of_list)

section \<open>Signing\<close>

lemma sign_attaches: "sign L r w a d m = (Inr sg, m') \<Longrightarrow> m' = attachSig r sg m"
  by (auto simp: sign_def Let_def split: sum.splits option.splits if_splits)

lemma sign_failure_keeps: "fst (sign L r w a d m) = Inl e \<Longrightarrow> snd (sign L r w a d m) = m"
  by (auto simp: sign_def Let_def split: sum.splits option.splits if_splits)

lemma sign_embeds_hash:
  "sign L r w a d m = (Inr sg, m') \<Longrightarrow> Mandate_mandateHash L m = Inr (mandateHash sg)"
  by (auto simp: sign_def Let_def Mandate_mandateHash_def computeMandateHash_def
      toCanonicalString_def split: sum.splits option.splits if_splits)

lemma sign_embeds_canonical:
  "sign L r w a d m = (Inr sg, m')
     \<Longrightarrow> \<exists>jcs. toCanonicalString L m = Inr jcs \<and> mandateHash sg = keccak256 L (toUtf8Bytes L jcs)"
  by (auto simp: sign_def Let_def split: sum.splits option.splits if_splits)

lemma attachSig_overwrites: "attachSig r s2 (attachSig r s1 m) = attachSig r s2 m"
  by (cases r) (simp_all add: attachSig_def Let_def split: option.splits)

lemma attachSig_role: "Option.bind (signatures (attachSig r sg m)) (roleSig r) = Some sg"
  by (cases r) (simp_all add: attachSig_def Let_def roleSig_def split: option.splits)

lemma attachSig_other_role:
  "r' \<noteq> r \<Longrightarrow> Option.bind (signatures (attachSig r sg m)) (roleSig r')
                 = Option.bind (signatures m) (roleSig r')"
  by (cases r; cases r') (simp_all add: attachSig_def Let_def roleSig_def split: option.splits)

lemma sign_attaches_role:
  "sign L r w a d m = (Inr sg, m') \<Longrightarrow> \<exists>ss. signatures m' = Some ss \<and> roleSig r ss = Some sg"
  using attachSig_role [of r sg m] by (auto dest!: sign_attaches split: Option.bind_splits)

text \<open>
  C5. The signatures object has one slot per role. After \<open>sign\<close> has succeeded twice for
  the same role, the role's slot holds the second signature, the mandate is the one that
  attaching only the second signature to the original would give, and the other role's
  slot is as it was before the first call.
\<close>

theorem resign_overwrites:
  assumes "sign L r w1 a1 d1 m = (Inr s1, m1)"
      and "sign L' r w2 a2 d2 m1 = (Inr s2, m2)"
  shows "Option.bind (signatures m1) (roleSig r) = Some s1
       \<and> Option.bind (signatures m2) (roleSig r) = Some s2
       \<and> m2 = attachSig r s2 m
       \<and> (\<forall>r'. r' \<noteq> r \<longrightarrow> Option.bind (signatures m2) (roleSig r')
                              = Option.bind (signatures m) (roleSig r'))"
proof -
  have m1: "m1 = attachSig r s1 m" using assms(1) by (rule sign_attaches)
  have m2: "m2 = attachSig r s2 m1" using assms(2) by (rule sign_attaches)
  have "m2 = attachSig r s2 m" using m1 m2 by (simp add: attachSig_overwrites)
  then show ?thesis
    using m1 by (simp add: attachSig_role attachSig_other_role)
qed

theorem resign_overwrites_witness:
  "sign libs0 Client walletA None None (attachSig Server sigB191 mandate0)
     = (Inr sigA191, attachSig Client sigA191 (attachSig Server sigB191 mandate0))
   \<and> sign libs0 Client walletA (Some ''eip712'') (Some domain0)
        (attachSig Client sigA191 (attachSig Server sigB191 mandate0))
     = (Inr sigA712, mandate0\<lparr>signatures := Some \<lparr>clientSig = Some sigA712, serverSig = Some sigB191\<rparr>\<rparr>)"
proof -
  have i1: "intent (attachSig Server sigB191 mandate0) = []"
    by (simp add: attachSig_def mandate0_def)
  have i2: "intent (attachSig Client sigA191 (attachSig Server sigB191 mandate0)) = []"
    by (simp add: attachSig_def mandate0_def)
  note s1 = sign0_A191 [OF i1, of Client None]
  note s2 = sign0_A712 [OF i2, of Client]
  from resign_overwrites [OF s1 s2] s1 s2 show ?thesis
    by (simp add: attachSig_def mandate0_def)
qed

section \<open>Verifying a role\<close>

lemma verifyRole_no_signatures: "signatures m = None \<Longrightarrow> verifyRole L r d m = Inl NoSignatures"
  by (simp add: verifyRole_def)

lemma verifyRole_sig_missing:
  "signatures m = Some ss \<Longrightarrow> roleSig r ss = None \<Longrightarrow> verifyRole L r d m = Inl (SigMissing r)"
  by (simp add: verifyRole_def)

lemma verifyRole_hash_mismatch:
  "signatures m = Some ss \<Longrightarrow> roleSig r ss = Some sg \<Longrightarrow> Mandate_mandateHash L m = Inr h
     \<Longrightarrow> toLowerCase (mandateHash sg) \<noteq> toLowerCase h
     \<Longrightarrow> verifyRole L r d m = Inl (MandateHashMismatch r)"
  by (simp add: verifyRole_def)

lemma tampered_hash_mismatch:
  assumes canon: "\<forall>x y. deepClone x = x \<and> deepClone y = y \<and> canonicalize L x = canonicalize L y
                    \<longrightarrow> x = y"
      and hash: "\<forall>j0 j. toCanonicalString L m0 = Inr j0 \<and> toCanonicalString L m = Inr j \<and> j \<noteq> j0
                    \<longrightarrow> toLowerCase (keccak256 L (toUtf8Bytes L j))
                          \<noteq> toLowerCase (keccak256 L (toUtf8Bytes L j0))"
      and signed: "sign L r w a d0 m0 = (Inr sg, m1)"
      and sigs: "signatures m = signatures m1"
      and defined: "Mandate_mandateHash L m \<noteq> Inl CanonicalizeEmpty"
      and changed: "mandateId m \<noteq> mandateId m0 \<or> version m \<noteq> version m0 \<or> client m \<noteq> client m0
         \<or> server m \<noteq> server m0 \<or> createdAt m \<noteq> createdAt m0 \<or> deadline m \<noteq> deadline m0
         \<or> intent m \<noteq> intent m0 \<or> deepClone (core m) \<noteq> deepClone (core m0)"
  shows "verifyRole L r d m = Inl (MandateHashMismatch r)"
proof -
  from sign_embeds_canonical [OF signed] obtain j0 where
    j0: "toCanonicalString L m0 = Inr j0" "mandateHash sg = keccak256 L (toUtf8Bytes L j0)"
    by blast
  from defined mandateHash_cases [of L m] obtain j where
    j: "toCanonicalString L m = Inr j" "Mandate_mandateHash L m = Inr (keccak256 L (toUtf8Bytes L j))"
    by blast
  have "j \<noteq> j0"
    using canonical_string_determines_fields [OF canon, of m j m0] j(1) j0(1) changed by blast
  with hash j(1) j0(1) have "toLowerCase (keccak256 L (toUtf8Bytes L j0))
                    \<noteq> toLowerCase (keccak256 L (toUtf8Bytes L j))"
    by metis
  moreover from sign_attaches_role [OF signed] sigs obtain ss where
    "signatures m = Some ss" "roleSig r ss = Some sg"
    by auto
  ultimately show ?thesis
    using j(2) j0(2) by (intro verifyRole_hash_mismatch [where ss = ss and sg = sg]) auto
qed

lemma recover_errors:
  "recover L d sg m = Inl e
     \<Longrightarrow> e = CanonicalizeEmpty \<or> e = RecoveryFailed \<or> e = Eip712RequiresDomain"
  by (auto simp: recover_def toCanonicalString_def canonicalizeForHash_def Let_def
      split: if_splits option.splits sum.splits)

lemma verifyRole_hash_agrees:
  "signatures m = Some ss \<Longrightarrow> roleSig r ss = Some sg \<Longrightarrow> Mandate_mandateHash L m = Inr h
     \<Longrightarrow> toLowerCase (mandateHash sg) = toLowerCase h
     \<Longrightarrow> verifyRole L r d m
           = (case recover L d sg m of
                Inl e \<Rightarrow> Inl e
              | Inr rec \<Rightarrow>
                  (case index (split CHR '':'' (roleId r m)) 2 of
                     None \<Rightarrow> Inl TypeError
                   | Some a \<Rightarrow>
                       if toLowerCase rec \<noteq> toLowerCase a
                       then Inl (SignatureInvalid r (toLowerCase a) rec)
                       else Inr \<lparr>ok = True, recovered = rec, recomputedHash = h,
                                 verifiedAlg = alg sg\<rparr>))"
  by (simp add: verifyRole_def)

lemma verifyRole_hash_agrees_no_mismatch:
  assumes "signatures m = Some ss" "roleSig r ss = Some sg" "Mandate_mandateHash L m = Inr h"
      and "toLowerCase (mandateHash sg) = toLowerCase h"
  shows "verifyRole L r d m \<noteq> Inl (MandateHashMismatch r)"
  unfolding verifyRole_hash_agrees [OF assms]
  using recover_errors [of L d sg m]
  by (auto split: sum.splits option.splits)

text \<open>
  C2. \<open>verifyRole\<close> fails with the no-signatures error when no signatures object is
  attached, and with the signature-missing error when the role's own signature is absent,
  whatever the other role holds. When the hash recomputed from the current content differs,
  letter case apart, from the hash embedded in the role's signature, it fails with the
  hash-mismatch error, and it does so whatever the two recovery functions of the library
  are: the comparison comes before any recovery. The comparison ignores letter case: the
  hash-mismatch error is returned exactly when the two hashes differ after lower-casing,
  and an embedded hash that differs from the recomputed one in letter case only lets the
  call go on to the recovery and the address check. In particular a mandate signed by
  \<open>sign\<close> and then changed so that its hash changes fails with the hash-mismatch error,
  not with the signature-invalid error; and when the canonicaliser is injective on JSON
  values and the canonical strings before and after the change, if they differ, do not
  collide under the hash, letter case apart, every change of a field other than
  \<open>signatures\<close> after signing is such a change.
\<close>

theorem verifyRole_missing_or_tampered:
  "(signatures m = None \<longrightarrow> verifyRole L r d m = Inl NoSignatures)
   \<and> (\<forall>ss. signatures m = Some ss \<and> roleSig r ss = None
         \<longrightarrow> verifyRole L r d m = Inl (SigMissing r))
   \<and> (\<forall>ss sg h. signatures m = Some ss \<and> roleSig r ss = Some sg
         \<and> Mandate_mandateHash L m = Inr h \<and> toLowerCase (mandateHash sg) \<noteq> toLowerCase h
         \<longrightarrow> (\<forall>vm vt. verifyRole (L\<lparr>verifyMessage := vm, verifyTypedData := vt\<rparr>) r d m
                        = Inl (MandateHashMismatch r)))
   \<and> (\<forall>w a d0 m0 sg m1 h0 h. sign L r w a d0 m0 = (Inr sg, m1)
         \<and> signatures m = signatures m1
         \<and> Mandate_mandateHash L m0 = Inr h0 \<and> Mandate_mandateHash L m = Inr h
         \<and> toLowerCase h \<noteq> toLowerCase h0
         \<longrightarrow> verifyRole L r d m = Inl (MandateHashMismatch r))
   \<and> (\<forall>w a d0 m0 sg m1.
         (\<forall>x y. deepClone x = x \<and> deepClone y = y \<and> canonicalize L x = canonicalize L y
                \<longrightarrow> x = y)
         \<and> (\<forall>j0 j. toCanonicalString L m0 = Inr j0 \<and> toCanonicalString L m = Inr j \<and> j \<noteq> j0
                \<longrightarrow> toLowerCase (keccak256 L (toUtf8Bytes L j))
                      \<noteq> toLowerCase (keccak256 L (toUtf8Bytes L j0)))
         \<and> sign L r w a d0 m0 = (Inr sg, m1)
         \<and> signatures m = signatures m1
         \<and> Mandate_mandateHash L m \<noteq> Inl CanonicalizeEmpty
         \<and> (mandateId m \<noteq> mandateId m0 \<or> version m \<noteq> version m0 \<or> client m \<noteq> client m0
              \<or> server m \<noteq> server m0 \<or> createdAt m \<noteq> createdAt m0
              \<or> deadline m \<noteq> deadline m0 \<or> intent m \<noteq> intent m0
              \<or> deepClone (core m) \<noteq> deepClone (core m0))
         \<longrightarrow> verifyRole L r d m = Inl (MandateHashMismatch r))
   \<and> (\<forall>ss sg h. signatures m = Some ss \<and> roleSig r ss = Some sg
         \<and> Mandate_mandateHash L m = Inr h
         \<longrightarrow> (verifyRole L r d m = Inl (MandateHashMismatch r)
               \<longleftrightarrow> toLowerCase (mandateHash sg) \<noteq> toLowerCase h))
   \<and> (\<forall>ss sg h. signatures m = Some ss \<and> roleSig r ss = Some sg
         \<and> Mandate_mandateHash L m = Inr h \<and> toLowerCase (mandateHash sg) = toLowerCase h
         \<longrightarrow> verifyRole L r d m
               = (case recover L d sg m of
                    Inl e \<Rightarrow> Inl e
                  | Inr rec \<Rightarrow>
                      (case index (split CHR '':'' (roleId r m)) 2 of
                         None \<Rightarrow> Inl TypeError
                       | Some a \<Rightarrow>
                           if toLowerCase rec \<noteq> toLowerCase a
                           then Inl (SignatureInvalid r (toLowerCase a) rec)
                           else Inr \<lparr>ok = True, recovered = rec, recomputedHash = h,
                                     verifiedAlg = alg sg\<rparr>)))"
proof (intro conjI allI impI)
  assume "signatures m = None"
  then show "verifyRole L r d m = Inl NoSignatures" by (rule verifyRole_no_signatures)
next
  fix ss assume "signatures m = Some ss \<and> roleSig r ss = None"
  then show "verifyRole L r d m = Inl (SigMissing r)" by (simp add: verifyRole_sig_missing)
next
  fix ss sg h vm vt
  assume a: "signatures m = Some ss \<and> roleSig r ss = Some sg
         \<and> Mandate_mandateHash L m = Inr h \<and> toLowerCase (mandateHash sg) \<noteq> toLowerCase h"
  show "verifyRole (L\<lparr>verifyMessage := vm, verifyTypedData := vt\<rparr>) r d m
          = Inl (MandateHashMismatch r)"
    using a
    by (intro verifyRole_hash_mismatch [where ss = ss and sg = sg and h = h])
       (simp_all add: mandateHash_recovery_free)
next
  fix w :: "'a HDNodeWallet" and a d0 m0 sg m1 h0 h
  assume a: "sign L r w a d0 m0 = (Inr sg, m1)
         \<and> signatures m = signatures m1
         \<and> Mandate_mandateHash L m0 = Inr h0 \<and> Mandate_mandateHash L m = Inr h
         \<and> toLowerCase h \<noteq> toLowerCase h0"
  then obtain ss where ss: "signatures m1 = Some ss" "roleSig r ss = Some sg"
    using sign_attaches_role by blast
  from a have "mandateHash sg = h0" using sign_embeds_hash [of L r w a d0 m0 sg m1] by simp
  with a ss show "verifyRole L r d m = Inl (MandateHashMismatch r)"
    by (intro verifyRole_hash_mismatch [where ss = ss and sg = sg and h = h]) auto
next
  fix w :: "'a HDNodeWallet" and a d0 m0 sg m1
  assume a: "(\<forall>x y. deepClone x = x \<and> deepClone y = y \<and> canonicalize L x = canonicalize L y
                \<longrightarrow> x = y)
         \<and> (\<forall>j0 j. toCanonicalString L m0 = Inr j0 \<and> toCanonicalString L m = Inr j \<and> j \<noteq> j0
                \<longrightarrow> toLowerCase (keccak256 L (toUtf8Bytes L j))
                      \<noteq> toLowerCase (keccak256 L (toUtf8Bytes L j0)))
         \<and> sign L r w a d0 m0 = (Inr sg, m1)
         \<and> signatures m = signatures m1
         \<and> Mandate_mandateHash L m \<noteq> Inl CanonicalizeEmpty
         \<and> (mandateId m \<noteq> mandateId m0 \<or> version m \<noteq> version m0 \<or> client m \<noteq> client m0
              \<or> server m \<noteq> server m0 \<or> createdAt m \<noteq> createdAt m0
              \<or> deadline m \<noteq> deadline m0 \<or> intent m \<noteq> intent m0
              \<or> deepClone (core m) \<noteq> deepClone (core m0))"
  then show "verifyRole L r d m = Inl (MandateHashMismatch r)"
    by (intro tampered_hash_mismatch [of L m0 m r w a d0 sg m1]) blast+
next
  fix ss sg h
  assume a: "signatures m = Some ss \<and> roleSig r ss = Some sg \<and> Mandate_mandateHash L m = Inr h"
  show "verifyRole L r d m = Inl (MandateHashMismatch r)
          \<longleftrightarrow> toLowerCase (mandateHash sg) \<noteq> toLowerCase h"
    using a verifyRole_hash_mismatch [of m ss r sg L h d]
      verifyRole_hash_agrees_no_mismatch [of m ss r sg L h d]
    by blast
next
  fix ss sg h
  assume "signatures m = Some ss \<and> roleSig r ss = Some sg
         \<and> Mandate_mandateHash L m = Inr h \<and> toLowerCase (mandateHash sg) = toLowerCase h"
  then show "verifyRole L r d m
               = (case recover L d sg m of
                    Inl e \<Rightarrow> Inl e
                  | Inr rec \<Rightarrow>
                      (case index (split CHR '':'' (roleId r m)) 2 of
                         None \<Rightarrow> Inl TypeError
                       | Some a \<Rightarrow>
                           if toLowerCase rec \<noteq> toLowerCase a
                           then Inl (SignatureInvalid r (toLowerCase a) rec)
                           else Inr \<lparr>ok = True, recovered = rec, recomputedHash = h,
                                     verifiedAlg = alg sg\<rparr>))"
    by (intro verifyRole_hash_agrees [where ss = ss]) blast+
qed

theorem verifyRole_missing_or_tampered_witness:
  "verifyRole libs0 Client None mandate0 = Inl NoSignatures
   \<and> verifyRole libs0 Client None (attachSig Server sigB191 mandate0) = Inl (SigMissing Client)
   \<and> sign libs0 Client walletA None None mandate0 = (Inr sigA191, attachSig Client sigA191 mandate0)
   \<and> verifyRole libs0 Client None ((attachSig Client sigA191 mandate0)\<lparr>intent := ''pay more''\<rparr>)
       = Inl (MandateHashMismatch Client)
   \<and> verifyRole libsInj Client None
         ((snd (sign libsInj Client walletA None None mandate0))\<lparr>intent := ''pay more''\<rparr>)
       = Inl (MandateHashMismatch Client)
   \<and> verifyRole libs0 Client None
         (mandate0\<lparr>signatures := Some \<lparr>clientSig = Some sigA191Upper, serverSig = None\<rparr>\<rparr>)
       = Inr \<lparr>ok = True, recovered = ''0xAAA'', recomputedHash = ''0x{intent:}'',
              verifiedAlg = ''eip191''\<rparr>"
proof -
  have i: "intent mandate0 = []" by (simp add: mandate0_def)
  note s = sign0_A191 [OF i, of Client None]
  note t1 = verifyRole_missing_or_tampered [where m = mandate0 and L = libs0 and r = Client and d = None]
  note t2 = verifyRole_missing_or_tampered
              [where m = "attachSig Server sigB191 mandate0" and L = libs0 and r = Client and d = None]
  note t3 = verifyRole_missing_or_tampered
              [where m = "(attachSig Client sigA191 mandate0)\<lparr>intent := ''pay more''\<rparr>"
                 and L = libs0 and r = Client and d = None]
  have a: "verifyRole libs0 Client None mandate0 = Inl NoSignatures"
    using t1 by (simp add: mandate0_def)
  have b: "verifyRole libs0 Client None (attachSig Server sigB191 mandate0) = Inl (SigMissing Client)"
    using t2 by (simp add: mandate0_def attachSig_def roleSig_def)
  have f1: "signatures ((attachSig Client sigA191 mandate0)\<lparr>intent := ''pay more''\<rparr>)
              = signatures (attachSig Client sigA191 mandate0)"
    by simp
  have f2: "Mandate_mandateHash libs0 mandate0 = Inr ''0x{intent:}''"
    using libs0_hash [of mandate0] by (simp add: mandate0_def)
  have f3: "Mandate_mandateHash libs0 ((attachSig Client sigA191 mandate0)\<lparr>intent := ''pay more''\<rparr>)
              = Inr ''0x{intent:pay more}''"
    using libs0_hash [of "(attachSig Client sigA191 mandate0)\<lparr>intent := ''pay more''\<rparr>"]
    by simp
  have f4: "toLowerCase ''0x{intent:pay more}'' \<noteq> toLowerCase ''0x{intent:}''"
    by code_simp
  have c: "verifyRole libs0 Client None
                  ((attachSig Client sigA191 mandate0)\<lparr>intent := ''pay more''\<rparr>)
                = Inl (MandateHashMismatch Client)"
    using t3 s f1 f2 f3 f4 by blast
  from libsInj_sign [of Client None mandate0] obtain sg where
    sg: "sign libsInj Client walletA None None mandate0 = (Inr sg, attachSig Client sg mandate0)"
    by blast
  note t4 = verifyRole_missing_or_tampered
              [where m = "(attachSig Client sg mandate0)\<lparr>intent := ''pay more''\<rparr>"
                 and L = libsInj and r = Client and d = None]
  have g1: "\<forall>x y. deepClone x = x \<and> deepClone y = y
              \<and> canonicalize libsInj x = canonicalize libsInj y \<longrightarrow> x = y"
    using libsInj_canonical_inj by blast
  have g2: "signatures ((attachSig Client sg mandate0)\<lparr>intent := ''pay more''\<rparr>)
              = signatures (attachSig Client sg mandate0)"
    by simp
  have g3: "intent ((attachSig Client sg mandate0)\<lparr>intent := ''pay more''\<rparr>) \<noteq> intent mandate0"
    by (simp add: mandate0_def)
  have g4: "\<forall>j0 j. toCanonicalString libsInj mandate0 = Inr j0
              \<and> toCanonicalString libsInj ((attachSig Client sg mandate0)\<lparr>intent := ''pay more''\<rparr>)
                  = Inr j
              \<and> j \<noteq> j0
              \<longrightarrow> toLowerCase (keccak256 libsInj (toUtf8Bytes libsInj j))
                    \<noteq> toLowerCase (keccak256 libsInj (toUtf8Bytes libsInj j0))"
    using libsInj_hash_lower_inj by (auto dest: injD)
  have "verifyRole libsInj Client None ((attachSig Client sg mandate0)\<lparr>intent := ''pay more''\<rparr>)
          = Inl (MandateHashMismatch Client)"
    using t4 [THEN conjunct2, THEN conjunct2, THEN conjunct2, THEN conjunct2, THEN conjunct1]
      g1 g4 sg g2 g3
      libsInj_defined [of "(attachSig Client sg mandate0)\<lparr>intent := ''pay more''\<rparr>"]
    by blast
  then have e: "verifyRole libsInj Client None
         ((snd (sign libsInj Client walletA None None mandate0))\<lparr>intent := ''pay more''\<rparr>)
       = Inl (MandateHashMismatch Client)"
    by (simp add: sg)
  note t5 = verifyRole_missing_or_tampered
              [where m = "mandate0\<lparr>signatures := Some \<lparr>clientSig = Some sigA191Upper,
                                                       serverSig = None\<rparr>\<rparr>"
                 and L = libs0 and r = Client and d = None]
  have u1: "signatures (mandate0\<lparr>signatures := Some \<lparr>clientSig = Some sigA191Upper,
                                                     serverSig = None\<rparr>\<rparr>)
              = Some \<lparr>clientSig = Some sigA191Upper, serverSig = None\<rparr>"
    by simp
  have u2: "roleSig Client \<lparr>clientSig = Some sigA191Upper, serverSig = None\<rparr> = Some sigA191Upper"
    by (simp add: roleSig_def)
  have u3: "Mandate_mandateHash libs0
              (mandate0\<lparr>signatures := Some \<lparr>clientSig = Some sigA191Upper, serverSig = None\<rparr>\<rparr>)
            = Inr ''0x{intent:}''"
    using libs0_hash
            [of "mandate0\<lparr>signatures := Some \<lparr>clientSig = Some sigA191Upper, serverSig = None\<rparr>\<rparr>"]
    by (simp add: mandate0_def)
  have u4: "toLowerCase (mandateHash sigA191Upper) = toLowerCase ''0x{intent:}''"
    unfolding sigA191Upper_def by code_simp
  have u5: "toLowerCase ''0xAAA'' = toLowerCase ''0xAaA''" by code_simp
  have f: "verifyRole libs0 Client None
         (mandate0\<lparr>signatures := Some \<lparr>clientSig = Some sigA191Upper, serverSig = None\<rparr>\<rparr>)
       = Inr \<lparr>ok = True, recovered = ''0xAAA'', recomputedHash = ''0x{intent:}'',
              verifiedAlg = ''eip191''\<rparr>"
    using t5 [THEN conjunct2, THEN conjunct2, THEN conjunct2, THEN conjunct2, THEN conjunct2,
              THEN conjunct2, rule_format, OF conjI [OF u1 conjI [OF u2 conjI [OF u3 u4]]]] u5
    by (simp add: recover_def libs0_canonical libs0_fields sigA191Upper_def roleId_def
        mandate0_def numeral_2_eq_2)
  from a b c s e f show ?thesis by simp
qed

lemma verifyRole_after_attach:
  assumes canon: "toCanonicalString L m = Inr jcs"
      and h: "mandateHash sg = keccak256 L (toUtf8Bytes L jcs)"
      and rec: "recover L d sg (attachSig r sg m) = Inr a"
      and party: "index (split CHR '':'' (roleId r m)) 2 = Some addr"
  shows "verifyRole L r d (attachSig r sg m)
           = (if toLowerCase a = toLowerCase addr
              then Inr \<lparr>ok = True, recovered = a,
                        recomputedHash = keccak256 L (toUtf8Bytes L jcs), verifiedAlg = alg sg\<rparr>
              else Inl (SignatureInvalid r (toLowerCase addr) a))"
proof -
  from attachSig_role [of r sg m] obtain ss where
    ss: "signatures (attachSig r sg m) = Some ss" "roleSig r ss = Some sg"
    by (auto split: Option.bind_splits)
  show ?thesis
    unfolding verifyRole_def
    by (simp add: ss hash_of_canonical [OF canon] h rec attachSig_fields party)
qed

text \<open>
  C3. For either role and for the algorithms \<open>eip191\<close> (also as the default) and \<open>eip712\<close>
  with a domain whose \<open>chainId\<close> is a number: when the mandate has a canonical form, the
  wallet signs, the library recovers the wallet's address from what the wallet signed, and
  the role's identifier has an address component, then \<open>sign\<close> succeeds, attaches a
  signature carrying the algorithm and the hash, and \<open>verifyRole\<close> on the signed mandate
  returns \<open>ok\<close> with the wallet's address as recovered address exactly when that address
  equals, letter case apart, the address component of the role's identifier; otherwise
  it fails with the signature-invalid error.
\<close>

theorem sign_then_verifyRole:
  assumes valid: "a = None \<or> a = Some ''eip191''
                  \<or> (a = Some ''eip712'' \<and> (\<exists>dd. d = Some dd \<and> typeofNumber (chainId dd)))"
      and canon: "toCanonicalString L m = Inr jcs"
      and signs: "\<forall>msg. signMessage w msg \<noteq> None" "\<forall>dd h. signTypedData w dd h \<noteq> None"
      and sound: "\<forall>msg sg. signMessage w msg = Some sg \<longrightarrow> verifyMessage L msg sg = Some (address w)"
                 "\<forall>dd h sg. signTypedData w dd h = Some sg
                    \<longrightarrow> verifyTypedData L dd h sg = Some (address w)"
      and party: "index (split CHR '':'' (roleId r m)) 2 = Some addr"
  shows "\<exists>sg. sign L r w a d m = (Inr sg, attachSig r sg m)
             \<and> alg sg = (case a of None \<Rightarrow> ''eip191'' | Some x \<Rightarrow> x)
             \<and> mandateHash sg = keccak256 L (toUtf8Bytes L jcs)
             \<and> verifyRole L r d (attachSig r sg m)
                 = (if toLowerCase (address w) = toLowerCase addr
                    then Inr \<lparr>ok = True, recovered = address w,
                              recomputedHash = keccak256 L (toUtf8Bytes L jcs),
                              verifiedAlg = alg sg\<rparr>
                    else Inl (SignatureInvalid r (toLowerCase addr) (address w)))"
proof -
  let ?h = "keccak256 L (toUtf8Bytes L jcs)"
  consider (m191) "a = None \<or> a = Some ''eip191''"
    | (m712) dd where "a = Some ''eip712''" "d = Some dd" "typeofNumber (chainId dd)"
    using valid by blast
  then show ?thesis
  proof cases
    case m191
    from signs(1) obtain s where s: "signMessage w (toUtf8Bytes L jcs) = Some s" by fastforce
    let ?sg = "\<lparr>alg = ''eip191'', mandateHash = ?h, signature = s\<rparr>"
    have sg: "sign L r w a d m = (Inr ?sg, attachSig r ?sg m)"
      using m191 canon s by (auto simp: sign_def Let_def)
    have "verifyMessage L (toUtf8Bytes L jcs) s = Some (address w)"
      using sound(1) s by blast
    then have rec: "recover L d ?sg (attachSig r ?sg m) = Inr (address w)"
      using canon by (simp add: recover_def attachSig_fields)
    have al: "alg ?sg = (case a of None \<Rightarrow> ''eip191'' | Some x \<Rightarrow> x)"
      using m191 by auto
    have "mandateHash ?sg = ?h" by simp
    from verifyRole_after_attach [OF canon this rec party] sg al show ?thesis
      by (intro exI [of _ ?sg]) simp
  next
    case m712
    from signs(2) obtain s where s: "signTypedData w dd ?h = Some s" by fastforce
    let ?sg = "\<lparr>alg = ''eip712'', mandateHash = ?h, signature = s\<rparr>"
    have sg: "sign L r w a d m = (Inr ?sg, attachSig r ?sg m)"
      using m712 canon s by (auto simp: sign_def Let_def)
    have "verifyTypedData L dd ?h s = Some (address w)"
      using sound(2) s by blast
    then have rec: "recover L d ?sg (attachSig r ?sg m) = Inr (address w)"
      using m712 by (simp add: recover_def)
    have al: "alg ?sg = (case a of None \<Rightarrow> ''eip191'' | Some x \<Rightarrow> x)"
      using m712 by auto
    have "mandateHash ?sg = ?h" by simp
    from verifyRole_after_attach [OF canon this rec party] sg al show ?thesis
      by (intro exI [of _ ?sg]) simp
  qed
qed

theorem sign_then_verifyRole_witness:
  "sign libs0 Client walletA None None mandate0 = (Inr sigA191, attachSig Client sigA191 mandate0)
   \<and> verifyRole libs0 Client None (attachSig Client sigA191 mandate0)
       = Inr \<lparr>ok = True, recovered = ''0xAAA'', recomputedHash = ''0x{intent:}'',
              verifiedAlg = ''eip191''\<rparr>
   \<and> sign libs0 Client walletA (Some ''eip712'') (Some domain0) mandate0
       = (Inr sigA712, attachSig Client sigA712 mandate0)
   \<and> verifyRole libs0 Client (Some domain0) (attachSig Client sigA712 mandate0)
       = Inr \<lparr>ok = True, recovered = ''0xAAA'', recomputedHash = ''0x{intent:}'',
              verifiedAlg = ''eip712''\<rparr>
   \<and> verifyRole libs0 Server None (attachSig Server sigA191 mandate0)
       = Inl (SignatureInvalid Server ''0xbbb'' ''0xAAA'')"
proof -
  have i: "intent mandate0 = []" by (simp add: mandate0_def)
  have canon: "toCanonicalString libs0 mandate0 = Inr ''{intent:}''"
    using libs0_canonical [of mandate0] by (simp add: mandate0_def)
  have pc: "index (split CHR '':'' (roleId Client mandate0)) 2 = Some ''0xAaA''"
    by (simp add: roleId_def mandate0_def numeral_2_eq_2)
  have ps: "index (split CHR '':'' (roleId Server mandate0)) 2 = Some ''0xBbB''"
    by (simp add: roleId_def mandate0_def numeral_2_eq_2)
  have lc: "toLowerCase (address walletA) = toLowerCase ''0xAaA''"
    unfolding walletA_def by code_simp
  have ls: "toLowerCase (address walletA) \<noteq> toLowerCase ''0xBbB''"
    unfolding walletA_def by code_simp
  have lb: "toLowerCase ''0xBbB'' = ''0xbbb''" by code_simp
  have v1: "a = None \<or> a = Some ''eip191''
       \<or> (a = Some ''eip712'' \<and> (\<exists>dd. d = Some dd \<and> typeofNumber (chainId dd)))"
    if "a = None" for a :: "string option" and d :: "TypedDataDomain option"
    using that by simp
  have v2: "Some ''eip712'' = None \<or> Some ''eip712'' = Some ''eip191''
       \<or> (Some ''eip712'' = Some ''eip712''
           \<and> (\<exists>dd. Some domain0 = Some dd \<and> typeofNumber (chainId dd)))"
    by (simp add: domain0_def)
  note s1 = sign0_A191 [OF i, of Client None]
  note s2 = sign0_A712 [OF i, of Client]
  note s3 = sign0_A191 [OF i, of Server None]
  from sign_then_verifyRole [OF v1 canon walletA_sound pc, of None None] s1 lc
  have a: "verifyRole libs0 Client None (attachSig Client sigA191 mandate0)
       = Inr \<lparr>ok = True, recovered = ''0xAAA'', recomputedHash = ''0x{intent:}'',
              verifiedAlg = ''eip191''\<rparr>"
    by (auto simp: libs0_fields walletA_def sigA191_def)
  from sign_then_verifyRole [OF v2 canon walletA_sound pc] s2 lc
  have b: "verifyRole libs0 Client (Some domain0) (attachSig Client sigA712 mandate0)
       = Inr \<lparr>ok = True, recovered = ''0xAAA'', recomputedHash = ''0x{intent:}'',
              verifiedAlg = ''eip712''\<rparr>"
    by (auto simp: libs0_fields walletA_def sigA712_def)
  from sign_then_verifyRole [OF v1 canon walletA_sound ps, of None None] s3 ls lb
  have c: "verifyRole libs0 Server None (attachSig Server sigA191 mandate0)
       = Inl (SignatureInvalid Server ''0xbbb'' ''0xAAA'')"
    by (auto simp: libs0_fields walletA_def sigA191_def)
  from a b c s1 s2 show ?thesis by simp
qed

section \<open>Serialising and rebuilding\<close>

lemma reachable_invariant:
  "reachable m \<Longrightarrow> client m \<noteq> [] \<and> server m \<noteq> [] \<and> deadline m \<noteq> [] \<and> \<not> nullish (core m)"
proof (induction rule: reachable.induct)
  case (constructed E init m)
  then show ?case
    by (auto simp: Mandate_constructor_def split: option.splits if_splits)
next
  case (core_set m reg k payload)
  then show ?case
    by (auto simp: setCore_def split: sum.splits)
next
  case (sig_attached m r sg)
  then show ?case
    by (simp add: attachSig_def Let_def)
qed

text \<open>
  C4. For every mandate a program can hold, with or without signatures,
  \<open>fromObject\<close> of its \<open>toJSON\<close> document succeeds, whatever the clock and the identifier
  generator are, and builds the mandate holding exactly that document; the \<open>toJSON\<close> of the
  rebuilt mandate is the original's \<open>toJSON\<close>. The last conjunct ties the record-level
  \<open>toJSON\<close> to \<open>deepClone\<close> of the mandate object.
\<close>

theorem toJSON_fromObject_roundtrip:
  assumes "reachable m"
  shows "fromObject E (asInit (toJSON m)) = Inr (toJSON m)
       \<and> toJSON (toJSON m) = toJSON m
       \<and> toObject (toJSON m) = deepClone (toObject m)"
proof -
  from reachable_invariant [OF assms] have
    inv: "client m \<noteq> []" "server m \<noteq> []" "deadline m \<noteq> []" "\<not> nullish (core m)"
    by simp_all
  then have nc: "\<not> nullish (deepClone (core m))" by (simp add: deepClone_nullish)
  have "fromObject E (asInit (toJSON m)) = Inr (toJSON m)"
    using inv(1-3) nc
    by (simp add: fromObject_def Mandate_constructor_def asInit_def toJSON_def)
  moreover have "core m \<noteq> JUndefined" using inv(4) by auto
  ultimately show ?thesis
    by (simp add: toJSON_idem toObject_toJSON)
qed

theorem toJSON_fromObject_roundtrip_witness:
  "fromObject env0 (asInit (toJSON signedMandate0)) = Inr signedMandate0
   \<and> toJSON signedMandate0 = signedMandate0"
proof -
  have c: "Mandate_constructor env0 signedInit0 = Inr signedMandate0"
    by (simp add: Mandate_constructor_def env0_def signedInit0_def init0_def signedMandate0_def
        mandate0_def)
  have j: "toJSON signedMandate0 = signedMandate0"
    by (simp add: toJSON_def signedMandate0_def mandate0_def dropUndefined_def)
  from toJSON_fromObject_roundtrip [OF reachable.constructed [OF c], of env0] show ?thesis
    by (simp add: j)
qed

section \<open>The third-party verifier\<close>

lemma third_party_after_signatures:
  assumes "fromObject E doc = Inr m"
      and "verifyAll L (eip712ClientDomain opts) (eip712ServerDomain opts) m = Inr sigs"
      and "A (client m) = Some ca" "A (server m) = Some sa"
  shows "verifyMandateAsThirdParty A L E doc opts =
     (if requireMismatch (requireClient opts) (toLowerCase ca)
        then Inl (ClientMismatch (requiredOf (requireClient opts)) (toLowerCase ca))
      else if requireMismatch (requireServer opts) (toLowerCase sa)
        then Inl (ServerMismatch (requiredOf (requireServer opts)) (toLowerCase sa))
      else if deadlinePassed E opts (toJSON m) then Inl DeadlinePassed
      else
        (case primitiveCheck opts (toJSON m) of
           Inl e \<Rightarrow> Inl e
         | Inr u \<Rightarrow>
             (case Mandate_mandateHash L m of
                Inl e \<Rightarrow> Inl e
              | Inr h \<Rightarrow>
                  Inr \<lparr>resultOk = True, partiesClient = toLowerCase ca,
                       partiesServer = toLowerCase sa, resultSignatures = sigs,
                       resultMandateHash = h, resultCore = core (toJSON m)\<rparr>)))"
  using assms by (simp add: verifyMandateAsThirdParty_def Let_def toJSON_parties)

lemma deadlinePassed_opts:
  "deadlinePassed E (opts\<lparr>requireClient := rc\<rparr>) j = deadlinePassed E opts j"
  "deadlinePassed E (opts\<lparr>requireServer := rs\<rparr>) j = deadlinePassed E opts j"
  by (simp_all add: deadlinePassed_def)

lemma primitiveCheck_opts:
  "primitiveCheck (opts\<lparr>requireClient := rc\<rparr>) j = primitiveCheck opts j"
  "primitiveCheck (opts\<lparr>requireServer := rs\<rparr>) j = primitiveCheck opts j"
  by (simp_all add: primitiveCheck_def)

lemma primitiveCheck_errors:
  "primitiveCheck opts j = Inl e \<Longrightarrow> e = UnexpectedCoreShape \<or> e = BadAmountIn"
  by (auto simp: primitiveCheck_def split: if_splits)

lemma third_party_accepts_example:
  "verifyMandateAsThirdParty addr0 libs0 env0 signedInit0 opts0
     = Inr \<lparr>resultOk = True, partiesClient = ''0xaaa'', partiesServer = ''0xbbb'',
            resultSignatures = verified0, resultMandateHash = ''0x{intent:}'',
            resultCore = JObj fmempty\<rparr>"
  using third_party_after_signatures
          [OF fromObject_signedInit0 _ addr0_signedMandate0, of libs0 opts0 verified0]
        verifyAll_signedMandate0
  by (simp add: opts0_def requireMismatch_def deadlinePassed_def primitiveCheck_def env0_def
      signedMandate0_fields libs0_hash lower_examples toJSON_def signedMandate0_def mandate0_def
      dropUndefined_def)

text \<open>
  C9, as amended. Once the document has been rebuilt, both signatures have verified and
  both plain addresses have been derived: a non-empty required client address that
  differs, letter case apart, from the client's derived address makes the verifier fail
  with the client-mismatch error, and likewise for the server once the client check has
  passed; when \<open>requireClient\<close> (\<open>requireServer\<close>) is absent or is the empty string, the
  verifier never fails with that error and returns what it returns when the derived
  address itself is required. The comparison ignores letter case: a required address
  that equals the derived one after lower-casing never gives the mismatch error, and the
  verifier returns what it returns without the option.
\<close>

theorem third_party_identity_check:
  assumes "fromObject E doc = Inr m"
      and "verifyAll L (eip712ClientDomain opts) (eip712ServerDomain opts) m = Inr sigs"
      and "A (client m) = Some ca" "A (server m) = Some sa"
  shows "(\<forall>rc. requireClient opts = Some rc \<and> rc \<noteq> [] \<and> toLowerCase ca \<noteq> toLowerCase rc
            \<longrightarrow> verifyMandateAsThirdParty A L E doc opts
                  = Inl (ClientMismatch rc (toLowerCase ca)))
       \<and> (\<forall>rs. \<not> requireMismatch (requireClient opts) (toLowerCase ca)
            \<and> requireServer opts = Some rs \<and> rs \<noteq> [] \<and> toLowerCase sa \<noteq> toLowerCase rs
            \<longrightarrow> verifyMandateAsThirdParty A L E doc opts
                  = Inl (ServerMismatch rs (toLowerCase sa)))
       \<and> (requireClient opts = None \<or> requireClient opts = Some []
            \<longrightarrow> (\<forall>x y. verifyMandateAsThirdParty A L E doc opts \<noteq> Inl (ClientMismatch x y))
              \<and> verifyMandateAsThirdParty A L E doc opts
                  = verifyMandateAsThirdParty A L E doc (opts\<lparr>requireClient := Some ca\<rparr>))
       \<and> (requireServer opts = None \<or> requireServer opts = Some []
            \<longrightarrow> (\<forall>x y. verifyMandateAsThirdParty A L E doc opts \<noteq> Inl (ServerMismatch x y))
              \<and> verifyMandateAsThirdParty A L E doc opts
                  = verifyMandateAsThirdParty A L E doc (opts\<lparr>requireServer := Some sa\<rparr>))
       \<and> (\<forall>rc. requireClient opts = Some rc \<and> toLowerCase ca = toLowerCase rc
            \<longrightarrow> (\<forall>x y. verifyMandateAsThirdParty A L E doc opts \<noteq> Inl (ClientMismatch x y))
              \<and> verifyMandateAsThirdParty A L E doc opts
                  = verifyMandateAsThirdParty A L E doc (opts\<lparr>requireClient := None\<rparr>))
       \<and> (\<forall>rs. requireServer opts = Some rs \<and> toLowerCase sa = toLowerCase rs
            \<longrightarrow> (\<forall>x y. verifyMandateAsThirdParty A L E doc opts \<noteq> Inl (ServerMismatch x y))
              \<and> verifyMandateAsThirdParty A L E doc opts
                  = verifyMandateAsThirdParty A L E doc (opts\<lparr>requireServer := None\<rparr>))"
proof -
  note eq = third_party_after_signatures [OF assms(1) _ assms(3,4)]
  note here = eq [OF assms(2)]
  have c: "verifyMandateAsThirdParty A L E doc opts = Inl (ClientMismatch rc (toLowerCase ca))"
    if "requireClient opts = Some rc \<and> rc \<noteq> [] \<and> toLowerCase ca \<noteq> toLowerCase rc" for rc
    using that by (simp add: here requireMismatch_def requiredOf_def)
  have s: "verifyMandateAsThirdParty A L E doc opts = Inl (ServerMismatch rs (toLowerCase sa))"
    if "\<not> requireMismatch (requireClient opts) (toLowerCase ca)
        \<and> requireServer opts = Some rs \<and> rs \<noteq> [] \<and> toLowerCase sa \<noteq> toLowerCase rs" for rs
    using that by (simp add: here requireMismatch_def requiredOf_def)
  have nc1: "verifyMandateAsThirdParty A L E doc opts \<noteq> Inl (ClientMismatch x y)"
    if "requireClient opts = None \<or> requireClient opts = Some []" for x y
    using that primitiveCheck_errors [of opts "toJSON m"] mandateHash_errors [of L m]
    by (auto simp: here requireMismatch_def split: sum.splits)
  have nc2: "verifyMandateAsThirdParty A L E doc opts
               = verifyMandateAsThirdParty A L E doc (opts\<lparr>requireClient := Some ca\<rparr>)"
    if "requireClient opts = None \<or> requireClient opts = Some []"
  proof -
    have "verifyAll L (eip712ClientDomain (opts\<lparr>requireClient := Some ca\<rparr>))
            (eip712ServerDomain (opts\<lparr>requireClient := Some ca\<rparr>)) m = Inr sigs"
      using assms(2) by simp
    from eq [OF this] that show ?thesis
      by (auto simp: here requireMismatch_def deadlinePassed_opts primitiveCheck_opts)
  qed
  have ns1: "verifyMandateAsThirdParty A L E doc opts \<noteq> Inl (ServerMismatch x y)"
    if "requireServer opts = None \<or> requireServer opts = Some []" for x y
    using that primitiveCheck_errors [of opts "toJSON m"] mandateHash_errors [of L m]
    by (auto simp: here requireMismatch_def split: sum.splits)
  have ns2: "verifyMandateAsThirdParty A L E doc opts
               = verifyMandateAsThirdParty A L E doc (opts\<lparr>requireServer := Some sa\<rparr>)"
    if "requireServer opts = None \<or> requireServer opts = Some []"
  proof -
    have "verifyAll L (eip712ClientDomain (opts\<lparr>requireServer := Some sa\<rparr>))
            (eip712ServerDomain (opts\<lparr>requireServer := Some sa\<rparr>)) m = Inr sigs"
      using assms(2) by simp
    from eq [OF this] that show ?thesis
      by (auto simp: here requireMismatch_def deadlinePassed_opts primitiveCheck_opts)
  qed
  have mc1: "verifyMandateAsThirdParty A L E doc opts \<noteq> Inl (ClientMismatch x y)"
    if "requireClient opts = Some rc \<and> toLowerCase ca = toLowerCase rc" for rc x y
    using that primitiveCheck_errors [of opts "toJSON m"] mandateHash_errors [of L m]
    by (auto simp: here requireMismatch_def split: sum.splits)
  have mc2: "verifyMandateAsThirdParty A L E doc opts
               = verifyMandateAsThirdParty A L E doc (opts\<lparr>requireClient := None\<rparr>)"
    if "requireClient opts = Some rc \<and> toLowerCase ca = toLowerCase rc" for rc
  proof -
    have "verifyAll L (eip712ClientDomain (opts\<lparr>requireClient := None\<rparr>))
            (eip712ServerDomain (opts\<lparr>requireClient := None\<rparr>)) m = Inr sigs"
      using assms(2) by simp
    from eq [OF this] that show ?thesis
      by (auto simp: here requireMismatch_def deadlinePassed_opts primitiveCheck_opts)
  qed
  have ms1: "verifyMandateAsThirdParty A L E doc opts \<noteq> Inl (ServerMismatch x y)"
    if "requireServer opts = Some rs \<and> toLowerCase sa = toLowerCase rs" for rs x y
    using that primitiveCheck_errors [of opts "toJSON m"] mandateHash_errors [of L m]
    by (auto simp: here requireMismatch_def split: sum.splits)
  have ms2: "verifyMandateAsThirdParty A L E doc opts
               = verifyMandateAsThirdParty A L E doc (opts\<lparr>requireServer := None\<rparr>)"
    if "requireServer opts = Some rs \<and> toLowerCase sa = toLowerCase rs" for rs
  proof -
    have "verifyAll L (eip712ClientDomain (opts\<lparr>requireServer := None\<rparr>))
            (eip712ServerDomain (opts\<lparr>requireServer := None\<rparr>)) m = Inr sigs"
      using assms(2) by simp
    from eq [OF this] that show ?thesis
      by (auto simp: here requireMismatch_def deadlinePassed_opts primitiveCheck_opts)
  qed
  show ?thesis
    using c s nc1 nc2 ns1 ns2 mc1 mc2 ms1 ms2 by blast
qed

theorem third_party_identity_check_witness:
  "verifyMandateAsThirdParty addr0 libs0 env0 signedInit0 (opts0\<lparr>requireClient := Some ''0xCcC''\<rparr>)
     = Inl (ClientMismatch ''0xCcC'' ''0xaaa'')
   \<and> verifyMandateAsThirdParty addr0 libs0 env0 signedInit0 (opts0\<lparr>requireServer := Some ''0xCcC''\<rparr>)
     = Inl (ServerMismatch ''0xCcC'' ''0xbbb'')
   \<and> verifyMandateAsThirdParty addr0 libs0 env0 signedInit0 opts0
     = verifyMandateAsThirdParty addr0 libs0 env0 signedInit0 (opts0\<lparr>requireClient := Some ''0xAaA''\<rparr>)
   \<and> verifyMandateAsThirdParty addr0 libs0 env0 signedInit0 opts0
     = verifyMandateAsThirdParty addr0 libs0 env0 signedInit0 (opts0\<lparr>requireServer := Some ''0xBbB''\<rparr>)
   \<and> verifyMandateAsThirdParty addr0 libs0 env0 signedInit0 (opts0\<lparr>requireClient := Some ''0XAAA''\<rparr>)
     = Inr \<lparr>resultOk = True, partiesClient = ''0xaaa'', partiesServer = ''0xbbb'',
            resultSignatures = verified0, resultMandateHash = ''0x{intent:}'',
            resultCore = JObj fmempty\<rparr>
   \<and> verifyMandateAsThirdParty addr0 libs0 env0 signedInit0 (opts0\<lparr>requireServer := Some ''0XBBB''\<rparr>)
     = Inr \<lparr>resultOk = True, partiesClient = ''0xaaa'', partiesServer = ''0xbbb'',
            resultSignatures = verified0, resultMandateHash = ''0x{intent:}'',
            resultCore = JObj fmempty\<rparr>"
proof -
  have va: "verifyAll libs0 (eip712ClientDomain p) (eip712ServerDomain p) signedMandate0 = Inr verified0"
    if "eip712ClientDomain p = None" "eip712ServerDomain p = None" for p
    using that verifyAll_signedMandate0 by simp
  have o1: "eip712ClientDomain (opts0\<lparr>requireClient := Some ''0xCcC''\<rparr>) = None"
           "eip712ServerDomain (opts0\<lparr>requireClient := Some ''0xCcC''\<rparr>) = None"
    by (simp_all add: opts0_def)
  have o2: "eip712ClientDomain (opts0\<lparr>requireServer := Some ''0xCcC''\<rparr>) = None"
           "eip712ServerDomain (opts0\<lparr>requireServer := Some ''0xCcC''\<rparr>) = None"
    by (simp_all add: opts0_def)
  have o3: "eip712ClientDomain opts0 = None" "eip712ServerDomain opts0 = None"
    by (simp_all add: opts0_def)
  note t1 = third_party_identity_check
              [OF fromObject_signedInit0 va [OF o1] addr0_signedMandate0]
  note t2 = third_party_identity_check
              [OF fromObject_signedInit0 va [OF o2] addr0_signedMandate0]
  note t3 = third_party_identity_check
              [OF fromObject_signedInit0 va [OF o3] addr0_signedMandate0]
  have a: "verifyMandateAsThirdParty addr0 libs0 env0 signedInit0
             (opts0\<lparr>requireClient := Some ''0xCcC''\<rparr>)
           = Inl (ClientMismatch ''0xCcC'' ''0xaaa'')"
    using t1 by (simp add: lower_examples)
  have b: "verifyMandateAsThirdParty addr0 libs0 env0 signedInit0
             (opts0\<lparr>requireServer := Some ''0xCcC''\<rparr>)
           = Inl (ServerMismatch ''0xCcC'' ''0xbbb'')"
    using t2 by (simp add: lower_examples requireMismatch_def opts0_def)
  have c: "verifyMandateAsThirdParty addr0 libs0 env0 signedInit0 opts0
     = verifyMandateAsThirdParty addr0 libs0 env0 signedInit0 (opts0\<lparr>requireClient := Some ''0xAaA''\<rparr>)
   \<and> verifyMandateAsThirdParty addr0 libs0 env0 signedInit0 opts0
     = verifyMandateAsThirdParty addr0 libs0 env0 signedInit0 (opts0\<lparr>requireServer := Some ''0xBbB''\<rparr>)"
  proof -
    have "requireClient opts0 = None" "requireServer opts0 = None"
      by (simp_all add: opts0_def)
    with t3 show ?thesis by blast
  qed
  have o4: "eip712ClientDomain (opts0\<lparr>requireClient := Some ''0XAAA''\<rparr>) = None"
           "eip712ServerDomain (opts0\<lparr>requireClient := Some ''0XAAA''\<rparr>) = None"
    by (simp_all add: opts0_def)
  have o5: "eip712ClientDomain (opts0\<lparr>requireServer := Some ''0XBBB''\<rparr>) = None"
           "eip712ServerDomain (opts0\<lparr>requireServer := Some ''0XBBB''\<rparr>) = None"
    by (simp_all add: opts0_def)
  note t4 = third_party_identity_check
              [OF fromObject_signedInit0 va [OF o4] addr0_signedMandate0]
  note t5 = third_party_identity_check
              [OF fromObject_signedInit0 va [OF o5] addr0_signedMandate0]
  have l1: "toLowerCase ''0xAaA'' = toLowerCase ''0XAAA''" by code_simp
  have l2: "toLowerCase ''0xBbB'' = toLowerCase ''0XBBB''" by code_simp
  have r1: "requireClient (opts0\<lparr>requireClient := Some ''0XAAA''\<rparr>) = Some ''0XAAA''"
    by simp
  have r2: "requireServer (opts0\<lparr>requireServer := Some ''0XBBB''\<rparr>) = Some ''0XBBB''"
    by simp
  have n1: "opts0\<lparr>requireClient := Some ''0XAAA'', requireClient := None\<rparr> = opts0"
    by (simp add: opts0_def)
  have n2: "opts0\<lparr>requireServer := Some ''0XBBB'', requireServer := None\<rparr> = opts0"
    by (simp add: opts0_def)
  from t4 l1 r1 have "verifyMandateAsThirdParty addr0 libs0 env0 signedInit0
             (opts0\<lparr>requireClient := Some ''0XAAA''\<rparr>)
           = verifyMandateAsThirdParty addr0 libs0 env0 signedInit0
               (opts0\<lparr>requireClient := Some ''0XAAA'', requireClient := None\<rparr>)"
    by blast
  then have d: "verifyMandateAsThirdParty addr0 libs0 env0 signedInit0
             (opts0\<lparr>requireClient := Some ''0XAAA''\<rparr>)
     = Inr \<lparr>resultOk = True, partiesClient = ''0xaaa'', partiesServer = ''0xbbb'',
            resultSignatures = verified0, resultMandateHash = ''0x{intent:}'',
            resultCore = JObj fmempty\<rparr>"
    by (simp only: n1 third_party_accepts_example)
  from t5 l2 r2 have "verifyMandateAsThirdParty addr0 libs0 env0 signedInit0
             (opts0\<lparr>requireServer := Some ''0XBBB''\<rparr>)
           = verifyMandateAsThirdParty addr0 libs0 env0 signedInit0
               (opts0\<lparr>requireServer := Some ''0XBBB'', requireServer := None\<rparr>)"
    by blast
  then have e: "verifyMandateAsThirdParty addr0 libs0 env0 signedInit0
             (opts0\<lparr>requireServer := Some ''0XBBB''\<rparr>)
     = Inr \<lparr>resultOk = True, partiesClient = ''0xaaa'', partiesServer = ''0xbbb'',
            resultSignatures = verified0, resultMandateHash = ''0x{intent:}'',
            resultCore = JObj fmempty\<rparr>"
    by (simp only: n2 third_party_accepts_example)
  from a b c d e show ?thesis by blast
qed

text \<open>
  C9 as stated fails: a \<open>requireClient\<close> that is given as the empty string differs from
  the client's derived address, and the verifier accepts the mandate all the same.
\<close>

theorem third_party_skips_empty_required_address:
  "verifyMandateAsThirdParty addr0 libs0 env0 signedInit0 (opts0\<lparr>requireClient := Some []\<rparr>)
     = Inr \<lparr>resultOk = True, partiesClient = ''0xaaa'', partiesServer = ''0xbbb'',
            resultSignatures = verified0, resultMandateHash = ''0x{intent:}'',
            resultCore = JObj fmempty\<rparr>
   \<and> toLowerCase [] \<noteq> ''0xaaa''"
  using third_party_after_signatures
          [OF fromObject_signedInit0 _ addr0_signedMandate0,
           of libs0 "opts0\<lparr>requireClient := Some []\<rparr>" verified0]
        verifyAll_signedMandate0
  by (simp add: opts0_def requireMismatch_def deadlinePassed_def primitiveCheck_def env0_def
      signedMandate0_fields libs0_hash lower_examples toJSON_def signedMandate0_def mandate0_def
      dropUndefined_def)

end
